theory Spec2Isabelle
  imports Complex_Main
begin

section \<open>Strings and errors\<close>

text \<open>
  A TypeScript string is a sequence of UTF-16 code units: \<open>length\<close> counts code units and
  \<open>includes\<close> is a search for a contiguous run of them. A string is therefore modelled as
  the list of its code units, each written as a natural number. ASCII literals of the
  source are written through \<open>utf16\<close>; other literals are written out unit by unit.
\<close>

type_synonym jsstring = "nat list"

definition utf16 :: "string \<Rightarrow> jsstring" where
  "utf16 s = map of_char s"

text \<open>
  An exception of the source is a value: \<open>Error msg\<close> for \<open>throw new Error(msg)\<close> and
  \<open>TypeError\<close> for the runtime's own error on calling or reading through a value that
  has no such member.
\<close>

datatype error = Error jsstring | TypeError

section \<open>Qualities and moods\<close>

datatype quality = Excellent | Good | Average | Poor

datatype mood = Curious | Happy | Confused | Excited

section \<open>String operations of the runtime\<close>

text \<open>\<open>s.includes(k)\<close>: some suffix of \<open>s\<close> starts with \<open>k\<close>.\<close>

fun startsWith :: "jsstring \<Rightarrow> jsstring \<Rightarrow> bool" where
  "startsWith s [] = True"
| "startsWith [] (k # ks) = False"
| "startsWith (c # cs) (k # ks) = (c = k \<and> startsWith cs ks)"

fun includesStr :: "jsstring \<Rightarrow> jsstring \<Rightarrow> bool" where
  "includesStr [] k = (k = [])"
| "includesStr (c # cs) k = (startsWith (c # cs) k \<or> includesStr cs k)"

text \<open>
  The white space of \<open>trim\<close> and of the pattern \<open>\s\<close>: tab, line feed, vertical tab, form
  feed, carriage return, space, no-break space, U+1680, U+2000 to U+200A, the line and
  paragraph separators, U+202F, U+205F, the ideographic space and the byte order mark.
\<close>

definition isWhiteSpace :: "nat \<Rightarrow> bool" where
  "isWhiteSpace c =
     (c \<in> set [0x9, 0xA, 0xB, 0xC, 0xD, 0x20, 0xA0, 0x1680, 0x2028, 0x2029, 0x202F, 0x205F,
               0x3000, 0xFEFF]
      \<or> (0x2000 \<le> c \<and> c \<le> 0x200A))"

definition trim :: "jsstring \<Rightarrow> jsstring" where
  "trim s = rev (dropWhile isWhiteSpace (rev (dropWhile isWhiteSpace s)))"

text \<open>
  \<open>s.split(/\s+/)\<close>: the pieces between maximal runs of white space. A run at either end
  leaves an empty piece there, and the empty string splits into one empty piece. The flag
  says that the scan is inside a run; \<open>cur\<close> is the piece being read, reversed.
\<close>

fun splitPieces :: "bool \<Rightarrow> jsstring \<Rightarrow> jsstring \<Rightarrow> jsstring list" where
  "splitPieces inRun cur [] = [rev cur]"
| "splitPieces inRun cur (c # cs) =
     (if isWhiteSpace c then
        (if inRun then splitPieces True [] cs else rev cur # splitPieces True [] cs)
      else splitPieces False (c # cur) cs)"

definition splitWhiteSpace :: "jsstring \<Rightarrow> jsstring list" where
  "splitWhiteSpace s = splitPieces False [] s"

text \<open>
  \<open>Math.floor(Math.random() * xs.length)\<close> is some index below the length of \<open>xs\<close>. The
  random source is an argument of the model: a draw \<open>r\<close> selects the entry at
  \<open>r mod length xs\<close>, so every entry can be selected and no other value can. Every
  list the source draws from is a non-empty literal.
\<close>

definition randomElement :: "'a list \<Rightarrow> nat \<Rightarrow> 'a" where
  "randomElement xs r = xs ! (r mod length xs)"

section \<open>Property lookup on object literals\<close>

text \<open>
  \<open>obj[key]\<close> on an object literal finds the literal's own entry, or else a member that
  every object inherits from \<open>Object.prototype\<close>, or else nothing (\<open>undefined\<close>). The
  inherited members are functions, and \<open>__proto__\<close> is the prototype object itself: all
  of them are truthy, none is an array or a number.
\<close>

datatype 'a member = Own 'a | Inherited | Absent

definition objectPrototypeNames :: "jsstring list" where
  "objectPrototypeNames =
     map utf16 [''constructor'', ''__defineGetter__'', ''__defineSetter__'',
       ''hasOwnProperty'', ''__lookupGetter__'', ''__lookupSetter__'', ''isPrototypeOf'',
       ''propertyIsEnumerable'', ''toString'', ''valueOf'', ''__proto__'',
       ''toLocaleString'']"

definition getProperty :: "(jsstring \<times> 'a) list \<Rightarrow> jsstring \<Rightarrow> 'a member" where
  "getProperty obj key =
     (case map_of obj key of
        Some v \<Rightarrow> Own v
      | None \<Rightarrow> if key \<in> set objectPrototypeNames then Inherited else Absent)"

section \<open>Shared request types\<close>

text \<open>The four per-topic values; \<open>functions\<close> is a reserved word, hence the prime.\<close>

record Understanding =
  algebra :: int
  geometry :: int
  functions' :: int
  probability :: int

text \<open>
  \<open>CharacterState\<close> of the backend types and \<open>LocalCharacterState\<close> of the frontend have
  the same fields; the field names carry a prefix here because the stored row uses the
  plain names.
\<close>

record CharacterState =
  cs_name :: jsstring
  cs_level :: int
  cs_experience :: int
  cs_maxExp :: int
  cs_understanding :: Understanding
  cs_mood :: mood
  cs_totalProblems :: int
  cs_personality :: jsstring

record ConversationMessage =
  role :: jsstring
  content :: jsstring
  timestamp :: jsstring

definition entries :: "Understanding \<Rightarrow> (jsstring \<times> int) list" where
  "entries u =
     [(utf16 ''algebra'', algebra u), (utf16 ''geometry'', geometry u),
      (utf16 ''functions'', functions' u), (utf16 ''probability'', probability u)]"

section \<open>answerEvaluationService: the numeric tables\<close>

definition baseExp :: "quality \<Rightarrow> int" where
  "baseExp q = (case q of Excellent \<Rightarrow> 25 | Good \<Rightarrow> 15 | Average \<Rightarrow> 8 | Poor \<Rightarrow> 3)"

definition calculateExperienceGain :: "quality \<Rightarrow> nat \<Rightarrow> int" where
  "calculateExperienceGain q answerLength =
     (let exp0 = baseExp q;
          exp1 = (if answerLength > 100 then exp0 + 5
                  else if answerLength > 50 then exp0 + 2
                  else exp0)
      in min exp1 30)"

definition calculateUnderstandingImprovement :: "quality \<Rightarrow> int" where
  "calculateUnderstandingImprovement q =
     (case q of Excellent \<Rightarrow> 8 | Good \<Rightarrow> 5 | Average \<Rightarrow> 3 | Poor \<Rightarrow> 1)"

definition determineNewMood :: "quality \<Rightarrow> mood \<Rightarrow> mood" where
  "determineNewMood q currentMood =
     (case q of Excellent \<Rightarrow> Excited | Good \<Rightarrow> Happy | Average \<Rightarrow> Curious | Poor \<Rightarrow> Confused)"

text \<open>The tables as the specification words them, for comparison with the code.\<close>

fun spec_base :: "quality \<Rightarrow> int" where
  "spec_base Excellent = 25"
| "spec_base Good = 15"
| "spec_base Average = 8"
| "spec_base Poor = 3"

definition spec_bonus :: "nat \<Rightarrow> int" where
  "spec_bonus n = (if n > 100 then 5 else if n > 50 then 2 else 0)"

fun spec_mood :: "quality \<Rightarrow> mood" where
  "spec_mood Excellent = Excited"
| "spec_mood Good = Happy"
| "spec_mood Average = Curious"
| "spec_mood Poor = Confused"

section \<open>answerEvaluationService: the rule-based evaluation\<close>

text \<open>
  The keyword tables of \<open>hasTopicKeywords\<close>, \<open>hasExamples\<close>, \<open>hasStepByStep\<close> and
  \<open>isPoliteAndClear\<close>, and the reply pools, are the Japanese literals of the source in
  source order, as UTF-16 code units.
\<close>

(* answerEvaluationService.ts, lines 152 to 159 *)
definition keywords_algebra :: "jsstring list" where
  "keywords_algebra =
     [[0x65B9, 0x7A0B, 0x5F0F],
      [0x89E3],
      [0x5909, 0x6570],
      [0x6587, 0x5B57],
      [0x4FC2, 0x6570],
      [0x9805],
      [0x56E0, 0x6570, 0x5206, 0x89E3],
      [0x5C55, 0x958B]]"

(* answerEvaluationService.ts, lines 162 to 169 *)
definition keywords_geometry :: "jsstring list" where
  "keywords_geometry =
     [[0x56F3, 0x5F62],
      [0x9762, 0x7A4D],
      [0x89D2, 0x5EA6],
      [0x76F4, 0x7DDA],
      [0x5186],
      [0x4E09, 0x89D2, 0x5F62],
      [0x56DB, 0x89D2, 0x5F62],
      [0x4F53, 0x7A4D]]"

(* answerEvaluationService.ts, lines 172 to 179 *)
definition keywords_functions :: "jsstring list" where
  "keywords_functions =
     [[0x95A2, 0x6570],
      [0x30B0, 0x30E9, 0x30D5],
      [0x5EA7, 0x6A19],
      [0x50BE, 0x304D],
      [0x5207, 0x7247],
      [0x5909, 0x5316],
      [0x6BD4, 0x4F8B],
      [0x53CD, 0x6BD4, 0x4F8B]]"

(* answerEvaluationService.ts, lines 182 to 187 *)
definition keywords_probability :: "jsstring list" where
  "keywords_probability =
     [[0x78BA, 0x7387],
      [0x5834, 0x5408, 0x306E, 0x6570],
      [0x9806, 0x5217],
      [0x7D44, 0x5408, 0x305B],
      [0x4E8B, 0x8C61],
      [0x6A19, 0x672C, 0x7A7A, 0x9593]]"

(* lines 197 to 202 *)
definition exampleIndicators :: "jsstring list" where
  "exampleIndicators =
     [[0x4F8B, 0x3048, 0x3070],
      [0x305F, 0x3068, 0x3048, 0x3070],
      [0x5177, 0x4F53, 0x7684, 0x306B],
      [0x5B9F, 0x969B, 0x306B],
      [0x3064, 0x307E, 0x308A],
      [0x3060, 0x304B, 0x3089]]"

(* lines 211 to 220 *)
definition stepIndicators :: "jsstring list" where
  "stepIndicators =
     [[0x307E, 0x305A],
      [0x6B21, 0x306B],
      [0x6700, 0x5F8C, 0x306B],
      [0x2460],
      [0x2461],
      [0x2462],
      [0x31, 0x2E],
      [0x32, 0x2E],
      [0x33, 0x2E],
      [0x624B, 0x9806]]"

(* lines 227 to 231 *)
definition politeIndicators :: "jsstring list" where
  "politeIndicators =
     [[0x3067, 0x3059],
      [0x3067, 0x3042, 0x308B],
      [0x307E, 0x3059],
      [0x3060, 0x3068, 0x601D, 0x3044, 0x307E, 0x3059],
      [0x3068, 0x8003, 0x3048, 0x307E, 0x3059]]"

(* lines 234 to 237 *)
definition clarityIndicators :: "jsstring list" where
  "clarityIndicators =
     [[0x3064, 0x307E, 0x308A],
      [0x3059, 0x306A, 0x308F, 0x3061],
      [0x3068, 0x3044, 0x3046, 0x306E, 0x306F],
      [0x3068, 0x3044, 0x3046, 0x3053, 0x3068, 0x306F]]"

(* lines 333 to 335 *)
definition comments_algebra :: "jsstring list" where
  "comments_algebra =
     [[0x4EE3, 0x6570, 0x306E, 0x8003, 0x3048, 0x65B9, 0x304C, 0x3088, 0x304F, 0x5206, 0x304B,
      0x3063, 0x305F, 0x3088, 0xFF01],
      [0x65B9, 0x7A0B, 0x5F0F, 0x306E, 0x89E3, 0x304D, 0x65B9, 0x306E, 0x30B3, 0x30C4, 0x304C,
      0x63B4, 0x3081, 0x305F, 0x6C17, 0x304C, 0x3059, 0x308B, 0xFF01],
      [0x6587, 0x5B57, 0x5F0F, 0x306E, 0x610F, 0x5473, 0x304C, 0x30AF, 0x30EA, 0x30A2, 0x306B,
      0x306A, 0x3063, 0x305F, 0x306D, 0xFF01]]"

(* lines 338 to 340 *)
definition comments_geometry :: "jsstring list" where
  "comments_geometry =
     [[0x56F3, 0x5F62, 0x306E, 0x6027, 0x8CEA, 0x306B, 0x3064, 0x3044, 0x3066, 0x7406, 0x89E3,
      0x304C, 0x6DF1, 0x307E, 0x3063, 0x305F, 0x3088, 0xFF01],
      [0x7A7A, 0x9593, 0x7684, 0x306A, 0x60F3, 0x50CF, 0x529B, 0x304C, 0x935B, 0x3048, 0x3089,
      0x308C, 0x305F, 0x611F, 0x3058, 0xFF01],
      [0x5E7E, 0x4F55, 0x5B66, 0x3063, 0x3066, 0x9762, 0x767D, 0x3044, 0x3093, 0x3060, 0x306D,
      0xFF01]]"

(* lines 343 to 345 *)
definition comments_functions :: "jsstring list" where
  "comments_functions =
     [[0x95A2, 0x6570, 0x306E, 0x30B0, 0x30E9, 0x30D5, 0x304C, 0x30A4, 0x30E1, 0x30FC, 0x30B8,
      0x3067, 0x304D, 0x308B, 0x3088, 0x3046, 0x306B, 0x306A, 0x3063, 0x305F, 0xFF01],
      [0x6570, 0x5F0F, 0x3068, 0x56F3, 0x5F62, 0x306E, 0x95A2, 0x4FC2, 0x304C, 0x898B, 0x3048,
      0x3066, 0x304D, 0x305F, 0x3088, 0xFF01],
      [0x5909, 0x5316, 0x306E, 0x69D8, 0x5B50, 0x304C, 0x3088, 0x304F, 0x5206, 0x304B, 0x3063,
      0x305F, 0x306D, 0xFF01]]"

(* lines 348 to 350 *)
definition comments_probability :: "jsstring list" where
  "comments_probability =
     [[0x78BA, 0x7387, 0x306E, 0x8003, 0x3048, 0x65B9, 0x304C, 0x6574, 0x7406, 0x3067, 0x304D,
      0x305F, 0xFF01],
      [0x5834, 0x5408, 0x306E, 0x6570, 0x3092, 0x6570, 0x3048, 0x308B, 0x65B9, 0x6CD5, 0x304C,
      0x5206, 0x304B, 0x3063, 0x305F, 0x3088, 0xFF01],
      [0x7D71, 0x8A08, 0x7684, 0x306A, 0x601D, 0x8003, 0x304C, 0x8EAB, 0x306B, 0x3064, 0x3044,
      0x305F, 0x611F, 0x3058, 0xFF01]]"

(* lines 361 to 365 *)
definition positiveResponses :: "jsstring list" where
  "positiveResponses =
     [[0x3059, 0x3054, 0x3044, 0xFF01, 0x3068, 0x3066, 0x3082, 0x5206, 0x304B, 0x308A, 0x3084,
      0x3059, 0x3044, 0x8AAC, 0x660E, 0x3060, 0x3063, 0x305F, 0x3088, 0xFF01, 0xD83D, 0xDE0A,
      0x20, 0x3042, 0x308A, 0x304C, 0x3068, 0x3046, 0xFF01],
      [0x306A, 0x308B, 0x307B, 0x3069, 0x301C, 0xFF01, 0x305D, 0x3046, 0x3044, 0x3046, 0x8003,
      0x3048, 0x65B9, 0x3082, 0x3042, 0x308B, 0x3093, 0x3060, 0x306D, 0xFF01, 0x2728, 0x20,
      0x52C9, 0x5F37, 0x306B, 0x306A, 0x3063, 0x305F, 0xFF01],
      [0x308F, 0x3042, 0xFF01, 0x8A73, 0x3057, 0x304F, 0x6559, 0x3048, 0x3066, 0x304F, 0x308C,
      0x3066, 0x3042, 0x308A, 0x304C, 0x3068, 0x3046, 0xFF01, 0xD83E, 0xDD29, 0x20, 0x3088,
      0x304F, 0x7406, 0x89E3, 0x3067, 0x304D, 0x305F, 0x3088, 0xFF01],
      [0x305D, 0x306E, 0x8AAC, 0x660E, 0x3001, 0x3068, 0x3066, 0x3082, 0x4E0A, 0x624B, 0x3060,
      0x306D, 0xFF01, 0xD83D, 0xDE04, 0x20, 0x3082, 0x3063, 0x3068, 0x6559, 0x3048, 0x3066,
      0x6B32, 0x3057, 0x3044, 0x306A, 0xFF01],
      [0x3042, 0x308A, 0x304C, 0x3068, 0x3046, 0xFF01, 0x541B, 0x306E, 0x8AAC, 0x660E, 0x306E,
      0x304A, 0x304B, 0x3052, 0x3067, 0x3088, 0x304F, 0x5206, 0x304B, 0x3063, 0x305F, 0x3088,
      0xFF01, 0xD83C, 0xDF1F]]"

(* lines 369 to 373 *)
definition encouragingResponses :: "jsstring list" where
  "encouragingResponses =
     [[0x3046, 0x3093, 0x3046, 0x3093, 0x3001, 0x3044, 0x3044, 0x611F, 0x3058, 0x3060, 0x306D,
      0xFF01, 0xD83D, 0xDE0A, 0x20, 0x3082, 0x3046, 0x5C11, 0x3057, 0x8A73, 0x3057, 0x304F,
      0x6559, 0x3048, 0x3066, 0x3082, 0x3089, 0x3048, 0x308B, 0xFF1F],
      [0x306A, 0x308B, 0x307B, 0x3069, 0xFF01, 0x3067, 0x3082, 0x3001, 0x3053, 0x3053, 0x306E,
      0x90E8, 0x5206, 0x3092, 0x3082, 0x3046, 0x5C11, 0x3057, 0x8AAC, 0x660E, 0x3057, 0x3066,
      0x3082, 0x3089, 0x3048, 0x308B, 0x304B, 0x306A, 0xFF1F, 0xD83E, 0xDD14],
      [0x3044, 0x3044, 0x3068, 0x3053, 0x308D, 0x306B, 0x6C17, 0x3065, 0x3044, 0x305F, 0x306D,
      0xFF01, 0xD83D, 0xDC4D, 0x20, 0x5177, 0x4F53, 0x4F8B, 0x304C, 0x3042, 0x308B, 0x3068,
      0x3082, 0x3063, 0x3068, 0x5206, 0x304B, 0x308A, 0x3084, 0x3059, 0x3044, 0x304B, 0x3082,
      0xFF01],
      [0x305D, 0x3046, 0x305D, 0x3046, 0xFF01, 0x305D, 0x306E, 0x8ABF, 0x5B50, 0x3060, 0x3088,
      0xFF01, 0xD83D, 0xDE04, 0x20, 0x7D9A, 0x304D, 0x3082, 0x805E, 0x304B, 0x305B, 0x3066,
      0xFF01],
      [0x304A, 0x304A, 0x3001, 0x305D, 0x3053, 0x306F, 0x5927, 0x4E8B, 0x306A, 0x30DD, 0x30A4,
      0x30F3, 0x30C8, 0x3060, 0x306D, 0xFF01, 0xD83D, 0xDCA1, 0x20, 0x3082, 0x3046, 0x5C11,
      0x3057, 0x6DF1, 0x304F, 0x6559, 0x3048, 0x3066, 0xFF01]]"

(* lines 377 to 381 *)
definition confusedResponses :: "jsstring list" where
  "confusedResponses =
     [[0x3046, 0x30FC, 0x3093, 0x3001, 0x3061, 0x3087, 0x3063, 0x3068, 0x96E3, 0x3057, 0x304F,
      0x3066, 0x5206, 0x304B, 0x3089, 0x306A, 0x3044, 0x304B, 0x3082, 0x2E, 0x2E, 0x2E, 0xD83D,
      0xDE05, 0x20, 0x3082, 0x3046, 0x5C11, 0x3057, 0x7C21, 0x5358, 0x306B, 0x8AAC, 0x660E,
      0x3057, 0x3066, 0x3082, 0x3089, 0x3048, 0x308B, 0xFF1F],
      [0x3054, 0x3081, 0x3093, 0x3001, 0x3053, 0x3053, 0x306E, 0x90E8, 0x5206, 0x304C, 0x3088,
      0x304F, 0x7406, 0x89E3, 0x3067, 0x304D, 0x306A, 0x3044, 0x306A, 0x2E, 0x2E, 0x2E, 0xD83E,
      0xDD14, 0x20, 0x5225, 0x306E, 0x8A00, 0x3044, 0x65B9, 0x3067, 0x6559, 0x3048, 0x3066,
      0x304F, 0x308C, 0x308B, 0xFF1F],
      [0x3042, 0x308C, 0xFF1F, 0x3061, 0x3087, 0x3063, 0x3068, 0x6DF7, 0x4E71, 0x3057, 0x3061,
      0x3083, 0x3063, 0x305F, 0x2E, 0x2E, 0x2E, 0xD83D, 0xDE35, 0x200D, 0xD83D, 0xDCAB, 0x20,
      0x3082, 0x3046, 0x4E00, 0x5EA6, 0x3086, 0x3063, 0x304F, 0x308A, 0x8AAC, 0x660E, 0x3057,
      0x3066, 0x3082, 0x3089, 0x3048, 0x308B, 0xFF1F],
      [0x3046, 0x30FC, 0x3093, 0x3001, 0x306A, 0x3093, 0x3060, 0x304B, 0x96E3, 0x3057, 0x3044,
      0x306D, 0x2E, 0x2E, 0x2E, 0xD83D, 0xDE13, 0x20, 0x57FA, 0x672C, 0x7684, 0x306A, 0x3068,
      0x3053, 0x308D, 0x304B, 0x3089, 0x6559, 0x3048, 0x3066, 0x3082, 0x3089, 0x3048, 0x308B,
      0x304B, 0x306A, 0xFF1F],
      [0x3061, 0x3087, 0x3063, 0x3068, 0x5F85, 0x3063, 0x3066, 0xFF01, 0x982D, 0x304C, 0x3053,
      0x3093, 0x304C, 0x3089, 0x304C, 0x3063, 0x3061, 0x3083, 0x3063, 0x305F, 0x2E, 0x2E, 0x2E,
      0xD83C, 0xDF00, 0x20, 0x6574, 0x7406, 0x3057, 0x3066, 0x6559, 0x3048, 0x3066, 0xFF01]]"

text \<open>The object literal \<open>keywords\<close> (a reserved word here, hence the name).\<close>

definition keywordTable :: "(jsstring \<times> jsstring list) list" where
  "keywordTable =
     [(utf16 ''algebra'', keywords_algebra), (utf16 ''geometry'', keywords_geometry),
      (utf16 ''functions'', keywords_functions), (utf16 ''probability'', keywords_probability)]"

definition comments :: "(jsstring \<times> jsstring list) list" where
  "comments =
     [(utf16 ''algebra'', comments_algebra), (utf16 ''geometry'', comments_geometry),
      (utf16 ''functions'', comments_functions), (utf16 ''probability'', comments_probability)]"

record EvaluationParams =
  e_userAnswer :: jsstring
  e_topic :: jsstring
  e_characterState :: CharacterState
  e_conversationHistory :: "ConversationMessage list"

record EvaluationResult =
  response :: jsstring
  experienceGain :: int
  newMood :: mood
  understandingImprovement :: int

text \<open>
  \<open>keywords[topic] || []\<close>: an unknown topic gives the empty list. An inherited member
  is truthy, so it is kept, and it has no \<open>some\<close> method: the call raises a TypeError.
\<close>

definition hasTopicKeywords :: "jsstring \<Rightarrow> jsstring \<Rightarrow> error + bool" where
  "hasTopicKeywords answer topic =
     (case getProperty keywordTable topic of
        Own topicKeywords \<Rightarrow> Inr (list_ex (\<lambda>keyword. includesStr answer keyword) topicKeywords)
      | Absent \<Rightarrow> Inr (list_ex (\<lambda>keyword. includesStr answer keyword) [])
      | Inherited \<Rightarrow> Inl TypeError)"

definition hasExamples :: "jsstring \<Rightarrow> bool" where
  "hasExamples answer = list_ex (\<lambda>indicator. includesStr answer indicator) exampleIndicators"

definition hasStepByStep :: "jsstring \<Rightarrow> bool" where
  "hasStepByStep answer = list_ex (\<lambda>indicator. includesStr answer indicator) stepIndicators"

definition isPoliteAndClear :: "jsstring \<Rightarrow> bool" where
  "isPoliteAndClear answer =
     (list_ex (\<lambda>indicator. includesStr answer indicator) politeIndicators
      \<or> list_ex (\<lambda>indicator. includesStr answer indicator) clarityIndicators)"

text \<open>The score that \<open>assessAnswerQuality\<close> accumulates, and its thresholds.\<close>

definition answerScore :: "jsstring \<Rightarrow> jsstring \<Rightarrow> error + nat" where
  "answerScore answer topic =
     (let wordCount = length (splitWhiteSpace (trim answer))
      in case hasTopicKeywords answer topic of
           Inl e \<Rightarrow> Inl e
         | Inr hasKeywords \<Rightarrow>
             (let s1 = (if wordCount > 50 then 2 else if wordCount > 20 then 1 else 0);
                  s2 = (if hasKeywords then s1 + 2 else s1);
                  s3 = (if hasExamples answer then s2 + 1 else s2);
                  s4 = (if hasStepByStep answer then s3 + 1 else s3);
                  s5 = (if isPoliteAndClear answer then s4 + 1 else s4)
              in Inr s5))"

definition assessAnswerQuality :: "jsstring \<Rightarrow> jsstring \<Rightarrow> error + quality" where
  "assessAnswerQuality answer topic =
     (case answerScore answer topic of
        Inl e \<Rightarrow> Inl e
      | Inr score \<Rightarrow>
          Inr (if score \<ge> 6 then Excellent
               else if score \<ge> 4 then Good
               else if score \<ge> 2 then Average
               else Poor))"

text \<open>
  \<open>getTopicSpecificComment\<close>: no comment for a poor answer or an unknown topic. Indexing
  an inherited member with a number gives \<open>undefined\<close>, which the caller treats like
  the empty comment.
\<close>

definition getTopicSpecificComment :: "jsstring \<Rightarrow> quality \<Rightarrow> nat \<Rightarrow> jsstring" where
  "getTopicSpecificComment topic q r =
     (if q = Poor then []
      else case getProperty comments topic of
             Own topicComments \<Rightarrow> randomElement topicComments r
           | Absent \<Rightarrow> []
           | Inherited \<Rightarrow> [])"

definition generateResponse :: "quality \<Rightarrow> jsstring \<Rightarrow> jsstring \<Rightarrow> nat \<Rightarrow> nat \<Rightarrow> jsstring" where
  "generateResponse q topic answer r1 r2 =
     (let responses = (case q of
             Excellent \<Rightarrow> positiveResponses
           | Good \<Rightarrow> positiveResponses
           | Average \<Rightarrow> encouragingResponses
           | Poor \<Rightarrow> confusedResponses);
          randomResponse = randomElement responses r1;
          topicComment = getTopicSpecificComment topic q r2
      in if topicComment \<noteq> [] then randomResponse @ [0x20] @ topicComment
         else randomResponse)"

definition evaluateWithFallback :: "EvaluationParams \<Rightarrow> nat \<Rightarrow> nat \<Rightarrow> error + EvaluationResult" where
  "evaluateWithFallback params r1 r2 =
     (case assessAnswerQuality (e_userAnswer params) (e_topic params) of
        Inl e \<Rightarrow> Inl e
      | Inr q \<Rightarrow>
          Inr \<lparr>response = generateResponse q (e_topic params) (e_userAnswer params) r1 r2,
               experienceGain = calculateExperienceGain q (length (e_userAnswer params)),
               newMood = determineNewMood q (cs_mood (e_characterState params)),
               understandingImprovement = calculateUnderstandingImprovement q\<rparr>)"

text \<open>
  The generative-AI client is outside the model. \<open>geminiService\<close> is \<open>None\<close> when the
  client could not be constructed (no API key); otherwise it is the outcome of its
  \<open>evaluateAnswer\<close> call on the request: a reply with a quality and a mood, or an error.
\<close>

record AiEvaluation =
  ai_response :: jsstring
  ai_quality :: quality
  ai_mood :: mood

definition fallbackEnabled :: bool where
  "fallbackEnabled = True"

definition evaluateAnswer ::
  "(EvaluationParams \<Rightarrow> error + AiEvaluation) option \<Rightarrow> EvaluationParams \<Rightarrow> nat \<Rightarrow> nat
     \<Rightarrow> error + EvaluationResult" where
  "evaluateAnswer geminiService params r1 r2 =
     (let attempt =
            (case geminiService of
               None \<Rightarrow> None
             | Some gemini \<Rightarrow>
                 (case gemini params of
                    Inl e \<Rightarrow> None
                  | Inr aiEvaluation \<Rightarrow>
                      Some \<lparr>response = ai_response aiEvaluation,
                            experienceGain = calculateExperienceGain (ai_quality aiEvaluation)
                              (length (e_userAnswer params)),
                            newMood = ai_mood aiEvaluation,
                            understandingImprovement =
                              calculateUnderstandingImprovement (ai_quality aiEvaluation)\<rparr>))
      in case attempt of
           Some result \<Rightarrow> Inr result
         | None \<Rightarrow>
             if fallbackEnabled then evaluateWithFallback params r1 r2
             else Inl (Error (utf16 ''Answer evaluation service unavailable'')))"

section \<open>geminiService: grading the AI reply\<close>

text \<open>
  \<open>GeminiService.evaluateAnswer\<close> (the source of \<open>geminiService.ts\<close> follows that of
  \<open>useCanvas.ts\<close> in the same file; line numbers are those of the file). The keyword
  lists of \<open>analyzeResponseQuality\<close> and \<open>determineMoodFromResponse\<close> are the literals of
  the source in source order, as UTF-16 code units; the three lists of the second
  function carry \<open>Mood\<close> in their names, since two of the local names repeat.
\<close>

(* lines 1060 to 1066 *)
definition positiveKeywords :: "jsstring list" where
  "positiveKeywords =
     [[0x3059, 0x3054, 0x3044],
      [0x3068, 0x3066, 0x3082],
      [0x3088, 0x304F, 0x5206, 0x304B, 0x3063, 0x305F],
      [0x8A73, 0x3057, 0x304F],
      [0x3042, 0x308A, 0x304C, 0x3068, 0x3046],
      [0x7D20, 0x6674, 0x3089, 0x3057, 0x3044],
      [0x5B8C, 0x74A7]]"

(* lines 1069 to 1073 *)
definition encouragingKeywords :: "jsstring list" where
  "encouragingKeywords =
     [[0x306A, 0x308B, 0x307B, 0x3069],
      [0x3044, 0x3044, 0x306D],
      [0x3082, 0x3046, 0x5C11, 0x3057],
      [0x7D9A, 0x304D],
      [0x3082, 0x3063, 0x3068]]"

(* lines 1076 to 1080 *)
definition confusedKeywords :: "jsstring list" where
  "confusedKeywords =
     [[0x5206, 0x304B, 0x3089, 0x306A, 0x3044],
      [0x96E3, 0x3057, 0x3044],
      [0x6DF7, 0x4E71],
      [0x3046, 0x30FC, 0x3093],
      [0x3061, 0x3087, 0x3063, 0x3068]]"

(* line 1114 *)
definition excitedMoodKeywords :: "jsstring list" where
  "excitedMoodKeywords =
     [[0x3059, 0x3054, 0x3044],
      [0x7D20, 0x6674, 0x3089, 0x3057, 0x3044],
      [0x5B8C, 0x74A7],
      [0x308F, 0x3042]]"

(* line 1115 *)
definition happyMoodKeywords :: "jsstring list" where
  "happyMoodKeywords =
     [[0x3042, 0x308A, 0x304C, 0x3068, 0x3046],
      [0x3088, 0x304F, 0x5206, 0x304B, 0x3063, 0x305F],
      [0x306A, 0x308B, 0x307B, 0x3069]]"

(* line 1116 *)
definition confusedMoodKeywords :: "jsstring list" where
  "confusedMoodKeywords =
     [[0x5206, 0x304B, 0x3089, 0x306A, 0x3044],
      [0x96E3, 0x3057, 0x3044],
      [0x6DF7, 0x4E71],
      [0x3046, 0x30FC, 0x3093]]"

definition countIncluded :: "jsstring list \<Rightarrow> jsstring \<Rightarrow> nat" where
  "countIncluded ks s = length (filter (\<lambda>keyword. includesStr s keyword) ks)"

definition analyzeResponseQuality :: "jsstring \<Rightarrow> jsstring \<Rightarrow> quality" where
  "analyzeResponseQuality aiResponse answer =
     (let positiveCount = countIncluded positiveKeywords aiResponse;
          encouragingCount = countIncluded encouragingKeywords aiResponse;
          confusedCount = countIncluded confusedKeywords aiResponse;
          answerLength = length answer;
          s1 = (if positiveCount \<ge> 2 then 3 else if positiveCount \<ge> 1 then 2 else (0::int));
          s2 = (if encouragingCount \<ge> 1 then s1 + 1 else s1);
          s3 = (if confusedCount \<ge> 2 then s2 - 2 else s2);
          qualityScore = (if answerLength > 100 then s3 + 1 else s3)
      in if qualityScore \<ge> 4 then Excellent
         else if qualityScore \<ge> 2 then Good
         else if qualityScore \<ge> 0 then Average
         else Poor)"

definition determineMoodFromResponse :: "jsstring \<Rightarrow> mood" where
  "determineMoodFromResponse reply =
     (if list_ex (\<lambda>keyword. includesStr reply keyword) excitedMoodKeywords then Excited
      else if list_ex (\<lambda>keyword. includesStr reply keyword) confusedMoodKeywords then Confused
      else if list_ex (\<lambda>keyword. includesStr reply keyword) happyMoodKeywords then Happy
      else Curious)"

text \<open>
  The generative model itself is an argument: \<open>generateContent\<close> gives, for a request,
  the text the model returns for the prompt built from that request, or the error of the
  call (transport error, timeout, quota). Every error inside the method is replaced by
  the method's own error.
\<close>

definition evaluateAnswerGemini ::
  "(EvaluationParams \<Rightarrow> error + jsstring) \<Rightarrow> EvaluationParams \<Rightarrow> error + AiEvaluation" where
  "evaluateAnswerGemini generateContent params =
     (case generateContent params of
        Inl e \<Rightarrow> Inl (Error (utf16 ''Failed to evaluate answer with AI''))
      | Inr reply \<Rightarrow>
          (let evaluation = trim reply;
               q = analyzeResponseQuality evaluation (e_userAnswer params);
               m = determineMoodFromResponse evaluation
           in Inr \<lparr>ai_response = evaluation, ai_quality = q, ai_mood = m\<rparr>))"

section \<open>mathQuestionService: question generation\<close>

text \<open>
  The question templates, four per topic and difficulty, the variation phrases and the
  generic prompt of the error path are the literals of the source in source order, as
  UTF-16 code units. \<open>roleMana\<close> is the role name of the tutor character's messages.
\<close>

(* mathQuestionService.ts, lines 16 to 19 *)
definition algebra_beginner :: "jsstring list" where
  "algebra_beginner =
     [[0x32, 0x78, 0x20, 0x2B, 0x20, 0x33, 0x20, 0x3D, 0x20, 0x37, 0x20, 0x3068, 0x3044, 0x3046,
      0x65B9, 0x7A0B, 0x5F0F, 0x304C, 0x3042, 0x308B, 0x306D, 0x3002, 0x3053, 0x308C, 0x3063,
      0x3066, 0x3069, 0x3046, 0x3084, 0x3063, 0x3066, 0x89E3, 0x3051, 0x3070, 0x3044, 0x3044,
      0x306E, 0x304B, 0x306A, 0xFF1F, 0xD83E, 0xDD14],
      [0x78, 0x20, 0x2B, 0x20, 0x35, 0x20, 0x3D, 0x20, 0x31, 0x32, 0x20, 0x306E, 0x89E3, 0x304D,
      0x65B9, 0x3092, 0x6559, 0x3048, 0x3066, 0xFF01, 0x5DE6, 0x8FBA, 0x3068, 0x53F3, 0x8FBA,
      0x3063, 0x3066, 0x4F55, 0x3060, 0x308D, 0x3046, 0xFF1F],
      [0x6587, 0x5B57, 0x5F0F, 0x3063, 0x3066, 0x4F55, 0xFF1F, 0x306A, 0x3093, 0x3067, 0x6570,
      0x5B57, 0x3058, 0x3083, 0x306A, 0x304F, 0x3066, 0x6587, 0x5B57, 0x3092, 0x4F7F, 0x3046,
      0x306E, 0xFF1F],
      [0x7B49, 0x5F0F, 0x306E, 0x6027, 0x8CEA, 0x306B, 0x3064, 0x3044, 0x3066, 0x6559, 0x3048,
      0x3066, 0xFF01, 0x4E21, 0x8FBA, 0x306B, 0x540C, 0x3058, 0x6570, 0x3092, 0x8DB3, 0x3057,
      0x3066, 0x3082, 0x5927, 0x4E08, 0x592B, 0xFF1F]]"

(* mathQuestionService.ts, lines 22 to 25 *)
definition algebra_intermediate :: "jsstring list" where
  "algebra_intermediate =
     [[0x78, 0xB2, 0x20, 0x2D, 0x20, 0x35, 0x78, 0x20, 0x2B, 0x20, 0x36, 0x20, 0x3D, 0x20, 0x30,
      0x20, 0x3092, 0x56E0, 0x6570, 0x5206, 0x89E3, 0x3067, 0x89E3, 0x304F, 0x65B9, 0x6CD5,
      0x3092, 0x6559, 0x3048, 0x3066, 0xFF01],
      [0x9023, 0x7ACB, 0x65B9, 0x7A0B, 0x5F0F, 0x20, 0x7B, 0x20, 0x78, 0x20, 0x2B, 0x20, 0x79,
      0x20, 0x3D, 0x20, 0x35, 0x2C, 0x20, 0x32, 0x78, 0x20, 0x2D, 0x20, 0x79, 0x20, 0x3D, 0x20,
      0x31, 0x20, 0x7D, 0x20, 0x306F, 0x3069, 0x3046, 0x89E3, 0x304F, 0x306E, 0xFF1F],
      [0x4E8C, 0x6B21, 0x65B9, 0x7A0B, 0x5F0F, 0x306E, 0x89E3, 0x306E, 0x516C, 0x5F0F, 0x3063,
      0x3066, 0x4F55, 0xFF1F, 0x3069, 0x3093, 0x306A, 0x6642, 0x306B, 0x4F7F, 0x3046, 0x306E,
      0xFF1F],
      [0x4E0D, 0x7B49, 0x5F0F, 0x20, 0x32, 0x78, 0x20, 0x2B, 0x20, 0x33, 0x20, 0x3E, 0x20, 0x37,
      0x20, 0x306E, 0x89E3, 0x304D, 0x65B9, 0x306F, 0x666E, 0x901A, 0x306E, 0x65B9, 0x7A0B,
      0x5F0F, 0x3068, 0x9055, 0x3046, 0x306E, 0xFF1F]]"

(* mathQuestionService.ts, lines 28 to 31 *)
definition algebra_advanced :: "jsstring list" where
  "algebra_advanced =
     [[0x5224, 0x5225, 0x5F0F, 0x3092, 0x4F7F, 0x3063, 0x3066, 0x4E8C, 0x6B21, 0x65B9, 0x7A0B,
      0x5F0F, 0x306E, 0x89E3, 0x306E, 0x500B, 0x6570, 0x3092, 0x8ABF, 0x3079, 0x308B, 0x65B9,
      0x6CD5, 0x306F, 0xFF1F],
      [0x8907, 0x7D20, 0x6570, 0x3092, 0x542B, 0x3080, 0x4E8C, 0x6B21, 0x65B9, 0x7A0B, 0x5F0F,
      0x306F, 0x3069, 0x3046, 0x89E3, 0x3051, 0x3070, 0x3044, 0x3044, 0x306E, 0xFF1F],
      [0x4E09, 0x6B21, 0x65B9, 0x7A0B, 0x5F0F, 0x306E, 0x56E0, 0x6570, 0x5206, 0x89E3, 0x306B,
      0x306F, 0x3069, 0x3093, 0x306A, 0x30B3, 0x30C4, 0x304C, 0x3042, 0x308B, 0x306E, 0xFF1F],
      [0x6052, 0x7B49, 0x5F0F, 0x3068, 0x65B9, 0x7A0B, 0x5F0F, 0x306E, 0x9055, 0x3044, 0x3063,
      0x3066, 0x4F55, 0xFF1F]]"

(* mathQuestionService.ts, lines 36 to 39 *)
definition geometry_beginner :: "jsstring list" where
  "geometry_beginner =
     [[0x4E09, 0x89D2, 0x5F62, 0x306E, 0x9762, 0x7A4D, 0x3092, 0x6C42, 0x3081, 0x308B, 0x516C,
      0x5F0F, 0x3092, 0x6559, 0x3048, 0x3066, 0xFF01, 0x5E95, 0x8FBA, 0xD7, 0x9AD8, 0x3055,
      0xF7, 0x32, 0x3060, 0x3063, 0x3051, 0xFF1F],
      [0x5186, 0x306E, 0x9762, 0x7A4D, 0x3068, 0x5186, 0x5468, 0x306E, 0x6C42, 0x3081, 0x65B9,
      0x306F, 0xFF1F, 0x3C0, 0x3063, 0x3066, 0x4F55, 0x306E, 0x6570, 0x5B57, 0x306A, 0x306E,
      0xFF1F],
      [0x56DB, 0x89D2, 0x5F62, 0x306B, 0x306F, 0x3069, 0x3093, 0x306A, 0x7A2E, 0x985E, 0x304C,
      0x3042, 0x308B, 0x306E, 0xFF1F, 0x6B63, 0x65B9, 0x5F62, 0x3068, 0x9577, 0x65B9, 0x5F62,
      0x306E, 0x9055, 0x3044, 0x306F, 0xFF1F],
      [0x89D2, 0x5EA6, 0x3063, 0x3066, 0x4F55, 0xFF1F, 0x76F4, 0x89D2, 0x306F, 0x4F55, 0x5EA6,
      0xFF1F]]"

(* mathQuestionService.ts, lines 42 to 45 *)
definition geometry_intermediate :: "jsstring list" where
  "geometry_intermediate =
     [[0x30D4, 0x30BF, 0x30B4, 0x30E9, 0x30B9, 0x306E, 0x5B9A, 0x7406, 0x306B, 0x3064, 0x3044,
      0x3066, 0x6559, 0x3048, 0x3066, 0xFF01, 0x3069, 0x3093, 0x306A, 0x4E09, 0x89D2, 0x5F62,
      0x3067, 0x4F7F, 0x3048, 0x308B, 0x306E, 0xFF1F],
      [0x76F8, 0x4F3C, 0x306A, 0x56F3, 0x5F62, 0x306E, 0x6027, 0x8CEA, 0x306F, 0xFF1F, 0x9762,
      0x7A4D, 0x6BD4, 0x3068, 0x8FBA, 0x306E, 0x6BD4, 0x306E, 0x95A2, 0x4FC2, 0x306F, 0xFF1F],
      [0x5186, 0x5468, 0x89D2, 0x3068, 0x4E2D, 0x5FC3, 0x89D2, 0x306E, 0x95A2, 0x4FC2, 0x3092,
      0x6559, 0x3048, 0x3066, 0xFF01],
      [0x4E09, 0x89D2, 0x5F62, 0x306E, 0x5408, 0x540C, 0x6761, 0x4EF6, 0x3063, 0x3066, 0x3069,
      0x3093, 0x306A, 0x3082, 0x306E, 0x304C, 0x3042, 0x308B, 0x306E, 0xFF1F]]"

(* mathQuestionService.ts, lines 48 to 51 *)
definition geometry_advanced :: "jsstring list" where
  "geometry_advanced =
     [[0x4E09, 0x89D2, 0x6BD4, 0xFF08, 0x73, 0x69, 0x6E, 0x2C, 0x20, 0x63, 0x6F, 0x73, 0x2C,
      0x20, 0x74, 0x61, 0x6E, 0xFF09, 0x3063, 0x3066, 0x4F55, 0xFF1F, 0x3069, 0x3046, 0x4F7F,
      0x3046, 0x306E, 0xFF1F],
      [0x7403, 0x306E, 0x4F53, 0x7A4D, 0x3068, 0x8868, 0x9762, 0x7A4D, 0x306E, 0x6C42, 0x3081,
      0x65B9, 0x306F, 0xFF1F],
      [0x30D9, 0x30AF, 0x30C8, 0x30EB, 0x3063, 0x3066, 0x4F55, 0xFF1F, 0x56F3, 0x5F62, 0x306E,
      0x554F, 0x984C, 0x3067, 0x3069, 0x3046, 0x4F7F, 0x3046, 0x306E, 0xFF1F],
      [0x5EA7, 0x6A19, 0x5E73, 0x9762, 0x4E0A, 0x3067, 0x306E, 0x76F4, 0x7DDA, 0x306E, 0x65B9,
      0x7A0B, 0x5F0F, 0x306F, 0x3069, 0x3046, 0x6C42, 0x3081, 0x308B, 0x306E, 0xFF1F]]"

(* mathQuestionService.ts, lines 56 to 59 *)
definition functions_beginner :: "jsstring list" where
  "functions_beginner =
     [[0x95A2, 0x6570, 0x3063, 0x3066, 0x4F55, 0xFF1F, 0x79, 0x20, 0x3D, 0x20, 0x32, 0x78, 0x20,
      0x2B, 0x20, 0x31, 0x20, 0x306E, 0x30B0, 0x30E9, 0x30D5, 0x306F, 0x3069, 0x3093, 0x306A,
      0x5F62, 0xFF1F],
      [0x4E00, 0x6B21, 0x95A2, 0x6570, 0x306E, 0x50BE, 0x304D, 0x3063, 0x3066, 0x4F55, 0x3092,
      0x8868, 0x3057, 0x3066, 0x308B, 0x306E, 0xFF1F],
      [0x5EA7, 0x6A19, 0x3063, 0x3066, 0x4F55, 0xFF1F, 0x28, 0x33, 0x2C, 0x20, 0x35, 0x29,
      0x306E, 0x610F, 0x5473, 0x3092, 0x6559, 0x3048, 0x3066, 0xFF01],
      [0x30B0, 0x30E9, 0x30D5, 0x306E, 0x8AAD, 0x307F, 0x53D6, 0x308A, 0x65B9, 0x3092, 0x6559,
      0x3048, 0x3066, 0xFF01]]"

(* mathQuestionService.ts, lines 62 to 65 *)
definition functions_intermediate :: "jsstring list" where
  "functions_intermediate =
     [[0x4E8C, 0x6B21, 0x95A2, 0x6570, 0x20, 0x79, 0x20, 0x3D, 0x20, 0x78, 0xB2, 0x20, 0x306E,
      0x30B0, 0x30E9, 0x30D5, 0x306F, 0x306A, 0x3093, 0x3067, 0x653E, 0x7269, 0x7DDA, 0x306B,
      0x306A, 0x308B, 0x306E, 0xFF1F],
      [0x95A2, 0x6570, 0x306E, 0x6700, 0x5927, 0x5024, 0x30FB, 0x6700, 0x5C0F, 0x5024, 0x3063,
      0x3066, 0x3069, 0x3046, 0x6C42, 0x3081, 0x308B, 0x306E, 0xFF1F],
      [0x4E00, 0x6B21, 0x95A2, 0x6570, 0x3068, 0x4E8C, 0x6B21, 0x95A2, 0x6570, 0x306E, 0x9055,
      0x3044, 0x306F, 0xFF1F],
      [0x5909, 0x5316, 0x306E, 0x5272, 0x5408, 0x3063, 0x3066, 0x4F55, 0xFF1F, 0x3069, 0x3046,
      0x8A08, 0x7B97, 0x3059, 0x308B, 0x306E, 0xFF1F]]"

(* mathQuestionService.ts, lines 68 to 71 *)
definition functions_advanced :: "jsstring list" where
  "functions_advanced =
     [[0x4E8C, 0x6B21, 0x95A2, 0x6570, 0x306E, 0x9802, 0x70B9, 0x306E, 0x5EA7, 0x6A19, 0x306F,
      0x3069, 0x3046, 0x6C42, 0x3081, 0x308B, 0x306E, 0xFF1F],
      [0x95A2, 0x6570, 0x306E, 0x5408, 0x6210, 0x3063, 0x3066, 0x4F55, 0xFF1F, 0x66, 0x28, 0x67,
      0x28, 0x78, 0x29, 0x29, 0x306F, 0x3069, 0x3046, 0x8A08, 0x7B97, 0x3059, 0x308B, 0x306E,
      0xFF1F],
      [0x9006, 0x95A2, 0x6570, 0x3063, 0x3066, 0x4F55, 0xFF1F, 0x3069, 0x3093, 0x306A, 0x6642,
      0x306B, 0x5B58, 0x5728, 0x3059, 0x308B, 0x306E, 0xFF1F],
      [0x6307, 0x6570, 0x95A2, 0x6570, 0x3068, 0x5BFE, 0x6570, 0x95A2, 0x6570, 0x306E, 0x95A2,
      0x4FC2, 0x3092, 0x6559, 0x3048, 0x3066, 0xFF01]]"

(* mathQuestionService.ts, lines 76 to 79 *)
definition probability_beginner :: "jsstring list" where
  "probability_beginner =
     [[0x30B5, 0x30A4, 0x30B3, 0x30ED, 0x3092, 0x31, 0x56DE, 0x632F, 0x308B, 0x6642, 0x3001,
      0x5076, 0x6570, 0x304C, 0x51FA, 0x308B, 0x78BA, 0x7387, 0x306F, 0xFF1F],
      [0x78BA, 0x7387, 0x3063, 0x3066, 0x4F55, 0xFF1F, 0x3069, 0x3046, 0x3084, 0x3063, 0x3066,
      0x8A08, 0x7B97, 0x3059, 0x308B, 0x306E, 0xFF1F],
      [0x5168, 0x4E8B, 0x8C61, 0x3063, 0x3066, 0x4F55, 0xFF1F, 0x6A19, 0x672C, 0x7A7A, 0x9593,
      0x3068, 0x306F, 0x9055, 0x3046, 0x306E, 0xFF1F],
      [0x30B3, 0x30A4, 0x30F3, 0x3092, 0x6295, 0x3052, 0x308B, 0x5B9F, 0x9A13, 0x3067, 0x78BA,
      0x7387, 0x3092, 0x8003, 0x3048, 0x3066, 0x307F, 0x3088, 0x3046, 0xFF01]]"

(* mathQuestionService.ts, lines 82 to 85 *)
definition probability_intermediate :: "jsstring list" where
  "probability_intermediate =
     [[0x30B5, 0x30A4, 0x30B3, 0x30ED, 0x3092, 0x32, 0x56DE, 0x632F, 0x308B, 0x6642, 0x3001,
      0x548C, 0x304C, 0x37, 0x306B, 0x306A, 0x308B, 0x78BA, 0x7387, 0x306F, 0xFF1F],
      [0x9806, 0x5217, 0x3068, 0x7D44, 0x5408, 0x305B, 0x306E, 0x9055, 0x3044, 0x3092, 0x6559,
      0x3048, 0x3066, 0xFF01],
      [0x91CD, 0x8907, 0x3092, 0x8A31, 0x3059, 0x5834, 0x5408, 0x306E, 0x6570, 0x3048, 0x65B9,
      0x306F, 0xFF1F],
      [0x6761, 0x4EF6, 0x4ED8, 0x304D, 0x78BA, 0x7387, 0x3063, 0x3066, 0x4F55, 0xFF1F, 0x3069,
      0x3046, 0x8A08, 0x7B97, 0x3059, 0x308B, 0x306E, 0xFF1F]]"

(* mathQuestionService.ts, lines 88 to 91 *)
definition probability_advanced :: "jsstring list" where
  "probability_advanced =
     [[0x30D9, 0x30A4, 0x30BA, 0x306E, 0x5B9A, 0x7406, 0x306B, 0x3064, 0x3044, 0x3066, 0x6559,
      0x3048, 0x3066, 0xFF01],
      [0x671F, 0x5F85, 0x5024, 0x3063, 0x3066, 0x4F55, 0xFF1F, 0x3069, 0x3046, 0x3084, 0x3063,
      0x3066, 0x8A08, 0x7B97, 0x3059, 0x308B, 0x306E, 0xFF1F],
      [0x6B63, 0x898F, 0x5206, 0x5E03, 0x3063, 0x3066, 0x4F55, 0xFF1F, 0x6A19, 0x6E96, 0x504F,
      0x5DEE, 0x3068, 0x306E, 0x95A2, 0x4FC2, 0x306F, 0xFF1F],
      [0x72EC, 0x7ACB, 0x306A, 0x4E8B, 0x8C61, 0x3068, 0x6392, 0x53CD, 0x306A, 0x4E8B, 0x8C61,
      0x306E, 0x9055, 0x3044, 0x306F, 0xFF1F]]"

(* lines 174 to 177 *)
definition variations :: "jsstring list" where
  "variations =
     [[0x5225, 0x306E, 0x89D2, 0x5EA6, 0x304B, 0x3089, 0x8003, 0x3048, 0x3066, 0x307F, 0x3088,
      0x3046, 0xFF01],
      [0x3053, 0x3093, 0x3069, 0x306F, 0x3053, 0x306E, 0x554F, 0x984C, 0x306F, 0x3069, 0x3046,
      0x304B, 0x306A, 0xFF1F],
      [0x5C11, 0x3057, 0x9055, 0x3063, 0x305F, 0x554F, 0x984C, 0x3082, 0x898B, 0x3066, 0x307F,
      0x3088, 0x3046, 0xFF01],
      [0x4ECA, 0x5EA6, 0x306F, 0x3053, 0x308C, 0x306B, 0x3064, 0x3044, 0x3066, 0x6559, 0x3048,
      0x3066, 0xFF01]]"

(* line 138 *)
definition fallbackQuestion :: "jsstring" where
  "fallbackQuestion =
     [0x306D, 0x3048, 0x3001, 0x4ECA, 0x65E5, 0x306F, 0x4F55, 0x3092, 0x52C9, 0x5F37, 0x3057,
     0x305F, 0x3044, 0x6C17, 0x5206, 0xFF1F, 0xD83D, 0xDE0A, 0x20, 0x3069, 0x306E, 0x5206,
     0x91CE, 0x306B, 0x8208, 0x5473, 0x304C, 0x3042, 0x308B, 0x304B, 0x6559, 0x3048, 0x3066,
     0xFF01]"

(* line 148 *)
definition roleMana :: "jsstring" where
  "roleMana =
     [0x30DE, 0x30CA]"

datatype difficulty = Beginner | Intermediate | Advanced

record Templates =
  beginner :: "jsstring list"
  intermediate :: "jsstring list"
  advanced :: "jsstring list"

definition questionTemplates :: "(jsstring \<times> Templates) list" where
  "questionTemplates =
     [(utf16 ''algebra'',
         \<lparr>beginner = algebra_beginner, intermediate = algebra_intermediate,
          advanced = algebra_advanced\<rparr>),
      (utf16 ''geometry'',
         \<lparr>beginner = geometry_beginner, intermediate = geometry_intermediate,
          advanced = geometry_advanced\<rparr>),
      (utf16 ''functions'',
         \<lparr>beginner = functions_beginner, intermediate = functions_intermediate,
          advanced = functions_advanced\<rparr>),
      (utf16 ''probability'',
         \<lparr>beginner = probability_beginner, intermediate = probability_intermediate,
          advanced = probability_advanced\<rparr>)]"

definition templatesAt :: "Templates \<Rightarrow> difficulty \<Rightarrow> jsstring list" where
  "templatesAt t d =
     (case d of Beginner \<Rightarrow> beginner t | Intermediate \<Rightarrow> intermediate t | Advanced \<Rightarrow> advanced t)"

record QuestionGenerationParams =
  q_topic :: jsstring
  q_characterLevel :: int
  q_understanding :: Understanding
  q_conversationHistory :: "ConversationMessage list"

text \<open>
  The pattern of \<open>isSimilarQuestion\<close>: hiragana U+3041 to U+3093, katakana U+30A1 to
  U+30F6, the long vowel mark U+30FC, and the ideographs U+4E00 to U+9FA0. \<open>matchRuns\<close>
  is the global match: the maximal runs of such units, in order (none gives the empty
  list). The first argument is the run being read, reversed.
\<close>

definition isKeywordUnit :: "nat \<Rightarrow> bool" where
  "isKeywordUnit c =
     ((0x3041 \<le> c \<and> c \<le> 0x3093) \<or> (0x30A1 \<le> c \<and> c \<le> 0x30F6) \<or> c = 0x30FC
      \<or> (0x4E00 \<le> c \<and> c \<le> 0x9FA0))"

fun matchRuns :: "jsstring \<Rightarrow> jsstring \<Rightarrow> jsstring list" where
  "matchRuns cur [] = (if cur = [] then [] else [rev cur])"
| "matchRuns cur (c # cs) =
     (if isKeywordUnit c then matchRuns (c # cur) cs
      else if cur = [] then matchRuns [] cs
      else rev cur # matchRuns [] cs)"

definition isSimilarQuestion :: "jsstring \<Rightarrow> jsstring \<Rightarrow> bool" where
  "isSimilarQuestion q1 q2 =
     (let keywords1 = matchRuns [] q1;
          keywords2 = matchRuns [] q2;
          commonWords = filter (\<lambda>word. List.member keywords2 word \<and> length word > 1) keywords1
      in length commonWords > 2)"

definition addVariation :: "jsstring \<Rightarrow> nat \<Rightarrow> jsstring" where
  "addVariation question r = randomElement variations r @ [0x20] @ question"

text \<open>\<open>slice(-3)\<close> keeps the last three entries, or all of them when there are fewer.\<close>

definition lastThree :: "'a list \<Rightarrow> 'a list" where
  "lastThree xs = drop (length xs - 3) xs"

definition adjustQuestionBasedOnHistory ::
  "jsstring \<Rightarrow> ConversationMessage list \<Rightarrow> nat \<Rightarrow> jsstring" where
  "adjustQuestionBasedOnHistory question history r =
     (let recentQuestions = map content (lastThree (filter (\<lambda>msg. role msg = roleMana) history))
      in if list_ex (\<lambda>q. isSimilarQuestion question q) recentQuestions
         then addVariation question r
         else question)"

text \<open>
  \<open>understanding[topic] || 0\<close>: an unknown topic reads as 0, like a stored 0. An
  inherited member is truthy and not a number (\<open>None\<close>): both comparisons with it are
  false, and the difficulty is the last branch.
\<close>

definition currentUnderstandingOf :: "Understanding \<Rightarrow> jsstring \<Rightarrow> int option" where
  "currentUnderstandingOf understanding topic =
     (case getProperty (entries understanding) topic of
        Own v \<Rightarrow> Some (if v = 0 then 0 else v)
      | Absent \<Rightarrow> Some 0
      | Inherited \<Rightarrow> None)"

definition difficultyFor :: "int option \<Rightarrow> difficulty" where
  "difficultyFor currentUnderstanding =
     (case currentUnderstanding of
        Some v \<Rightarrow> if v < 30 then Beginner else if v < 70 then Intermediate else Advanced
      | None \<Rightarrow> Advanced)"

text \<open>
  The body of the \<open>try\<close> block. An unknown topic has no templates and raises
  \<open>Unknown topic\<close>; an inherited member is truthy, has no list under the difficulty's
  name, and reading the length of that \<open>undefined\<close> raises a TypeError.
\<close>

definition tryGenerateQuestion :: "QuestionGenerationParams \<Rightarrow> nat \<Rightarrow> nat \<Rightarrow> error + jsstring" where
  "tryGenerateQuestion params r1 r2 =
     (let topic = q_topic params;
          difficulty = difficultyFor (currentUnderstandingOf (q_understanding params) topic)
      in case getProperty questionTemplates topic of
           Absent \<Rightarrow> Inl (Error (utf16 ''Unknown topic: '' @ topic))
         | Inherited \<Rightarrow> Inl TypeError
         | Own templates \<Rightarrow>
             (let questions = templatesAt templates difficulty;
                  selectedQuestion = randomElement questions r1
              in Inr (adjustQuestionBasedOnHistory selectedQuestion
                        (q_conversationHistory params) r2)))"

text \<open>The \<open>catch\<close> block turns every error of the body into the generic prompt.\<close>

definition generateQuestion :: "QuestionGenerationParams \<Rightarrow> nat \<Rightarrow> nat \<Rightarrow> error + jsstring" where
  "generateQuestion params r1 r2 =
     (case tryGenerateQuestion params r1 r2 of
        Inr adjustedQuestion \<Rightarrow> Inr adjustedQuestion
      | Inl e \<Rightarrow> Inr fallbackQuestion)"

section \<open>characterService: the stored character state\<close>

text \<open>
  One row of the \<open>character_states\<close> table, with the integer columns as integers. The
  \<open>updatedAt\<close> timestamp, which every update refreshes, is not part of the model.
\<close>

record CharacterStateRow =
  level :: int
  experience :: int
  understandingAlgebra :: int
  understandingGeometry :: int
  understandingFunctions :: int
  understandingProbability :: int
  mood :: jsstring
  totalProblems :: int

text \<open>\<open>CharacterUpdateData\<close>: every field is optional.\<close>

record CharacterUpdateData =
  u_level :: "int option"
  u_experience :: "int option"
  u_understandingAlgebra :: "int option"
  u_understandingGeometry :: "int option"
  u_understandingFunctions :: "int option"
  u_understandingProbability :: "int option"
  u_mood :: "jsstring option"
  u_totalProblems :: "int option"

definition emptyUpdate :: CharacterUpdateData where
  "emptyUpdate = \<lparr>u_level = None, u_experience = None, u_understandingAlgebra = None,
     u_understandingGeometry = None, u_understandingFunctions = None,
     u_understandingProbability = None, u_mood = None, u_totalProblems = None\<rparr>"

text \<open>The store: at most one row per user id.\<close>

type_synonym store = "jsstring \<rightharpoonup> CharacterStateRow"

definition newRow :: CharacterStateRow where
  "newRow = \<lparr>level = 1, experience = 0, understandingAlgebra = 0,
     understandingGeometry = 0, understandingFunctions = 0,
     understandingProbability = 0, mood = utf16 ''curious'', totalProblems = 0\<rparr>"

definition createCharacterState :: "store \<Rightarrow> jsstring \<Rightarrow> store \<times> CharacterStateRow" where
  "createCharacterState db userId = (db(userId \<mapsto> newRow), newRow)"

definition getCharacterState :: "store \<Rightarrow> jsstring \<Rightarrow> store \<times> CharacterStateRow" where
  "getCharacterState db userId =
     (case db userId of
        None \<Rightarrow> createCharacterState db userId
      | Some characterState \<Rightarrow> (db, characterState))"

definition orElse :: "'a option \<Rightarrow> 'a \<Rightarrow> 'a" where
  "orElse x d = (case x of None \<Rightarrow> d | Some v \<Rightarrow> v)"

text \<open>The update of a row: a field that the update data carries replaces the stored one.\<close>

definition mergeUpdate :: "CharacterStateRow \<Rightarrow> CharacterUpdateData \<Rightarrow> CharacterStateRow" where
  "mergeUpdate r u =
     \<lparr>level = orElse (u_level u) (level r),
      experience = orElse (u_experience u) (experience r),
      understandingAlgebra = orElse (u_understandingAlgebra u) (understandingAlgebra r),
      understandingGeometry = orElse (u_understandingGeometry u) (understandingGeometry r),
      understandingFunctions = orElse (u_understandingFunctions u) (understandingFunctions r),
      understandingProbability =
        orElse (u_understandingProbability u) (understandingProbability r),
      mood = orElse (u_mood u) (mood r),
      totalProblems = orElse (u_totalProblems u) (totalProblems r)\<rparr>"

definition updateCharacterState ::
  "store \<Rightarrow> jsstring \<Rightarrow> CharacterUpdateData \<Rightarrow> error + store \<times> CharacterStateRow" where
  "updateCharacterState db userId updateData =
     (case db userId of
        None \<Rightarrow> Inl (Error (utf16 ''Failed to update character state''))
      | Some r \<Rightarrow> (let r' = mergeUpdate r updateData in Inr (db(userId \<mapsto> r'), r')))"

text \<open>
  The update data that \<open>addExperience\<close> builds from the current row. An absent or empty
  topic is falsy and skips the understanding update; the \<open>switch\<close> has no default case.
\<close>

definition experienceUpdate ::
  "CharacterStateRow \<Rightarrow> int \<Rightarrow> jsstring option \<Rightarrow> CharacterUpdateData" where
  "experienceUpdate currentState expGain topic =
     (let newExperience = experience currentState + expGain;
          newLevel = newExperience div 100 + 1;
          updateData = emptyUpdate
            \<lparr>u_experience := Some newExperience,
             u_level := Some (min newLevel (level currentState + 1)),
             u_totalProblems := Some (totalProblems currentState + 1)\<rparr>
      in case topic of
           None \<Rightarrow> updateData
         | Some t \<Rightarrow>
             if t = [] then updateData
             else
               (let understandingGain = min 5 expGain
                in if t = utf16 ''algebra'' then
                     updateData\<lparr>u_understandingAlgebra :=
                       Some (min 100 (understandingAlgebra currentState + understandingGain))\<rparr>
                   else if t = utf16 ''geometry'' then
                     updateData\<lparr>u_understandingGeometry :=
                       Some (min 100 (understandingGeometry currentState + understandingGain))\<rparr>
                   else if t = utf16 ''functions'' then
                     updateData\<lparr>u_understandingFunctions :=
                       Some (min 100 (understandingFunctions currentState + understandingGain))\<rparr>
                   else if t = utf16 ''probability'' then
                     updateData\<lparr>u_understandingProbability :=
                       Some (min 100
                         (understandingProbability currentState + understandingGain))\<rparr>
                   else updateData))"

definition addExperience ::
  "store \<Rightarrow> jsstring \<Rightarrow> int \<Rightarrow> jsstring option \<Rightarrow> error + store \<times> CharacterStateRow" where
  "addExperience db userId expGain topic =
     (case getCharacterState db userId of
        (db1, currentState) \<Rightarrow>
          (case updateCharacterState db1 userId (experienceUpdate currentState expGain topic) of
             Inl e \<Rightarrow> Inl (Error (utf16 ''Failed to add experience''))
           | Inr res \<Rightarrow> Inr res))"

text \<open>The four topics and the understanding a row stores for each.\<close>

definition topics :: "jsstring list" where
  "topics = [utf16 ''algebra'', utf16 ''geometry'', utf16 ''functions'', utf16 ''probability'']"

definition understandingOf :: "CharacterStateRow \<Rightarrow> jsstring \<Rightarrow> int" where
  "understandingOf r t =
     (if t = utf16 ''algebra'' then understandingAlgebra r
      else if t = utf16 ''geometry'' then understandingGeometry r
      else if t = utf16 ''functions'' then understandingFunctions r
      else understandingProbability r)"

section \<open>adaptiveLearningService: metrics and recommendations\<close>

text \<open>
  The fields of \<open>LearningMetrics\<close> that the recommendations read. The user id, the
  estimated answer counts and the learning velocity (floating-point estimates from the
  conversation log) are left out: no recommendation depends on them.
\<close>

record LearningMetrics =
  m_totalProblems :: int
  topicProficiency :: Understanding
  currentLevel :: int
  suggestedLevel :: int
  strugglingTopics :: "jsstring list"
  masteredTopics :: "jsstring list"

datatype questionType = Concept | Application | ProblemSolving

record AdaptiveRecommendation =
  recommendedTopic :: jsstring
  difficultyLevel :: difficulty
  questionType :: questionType
  focusAreas :: "jsstring list"
  reasoning :: jsstring

text \<open>The fixed parts of the three reasoning sentences, as UTF-16 code units.\<close>

(* adaptiveLearningService.ts, line 121, after the topic *)
definition reasonStruggling :: "jsstring" where
  "reasonStruggling =
     [0x306E, 0x7406, 0x89E3, 0x5EA6, 0x304C, 0x4F4E, 0x3044, 0x305F, 0x3081, 0x3001, 0x57FA,
     0x790E, 0x6982, 0x5FF5, 0x306E, 0x5FA9, 0x7FD2, 0x3092, 0x304A, 0x52E7, 0x3081, 0x3057,
     0x307E, 0x3059]"

(* line 142, before the topic *)
definition reasonBalancedPrefix :: "jsstring" where
  "reasonBalancedPrefix =
     [0x5168, 0x4F53, 0x7684, 0x306B, 0x30D0, 0x30E9, 0x30F3, 0x30B9, 0x826F, 0x304F, 0x5B66,
     0x7FD2, 0x3055, 0x308C, 0x3066, 0x3044, 0x307E, 0x3059, 0x3002]"

(* line 142, after the topic *)
definition reasonBalancedSuffix :: "jsstring" where
  "reasonBalancedSuffix =
     [0x3092, 0x3055, 0x3089, 0x306B, 0x4F38, 0x3070, 0x3057, 0x307E, 0x3057, 0x3087, 0x3046]"

(* line 153, after the topic *)
definition reasonMastered :: "jsstring" where
  "reasonMastered =
     [0x306E, 0x57FA, 0x790E, 0x306F, 0x5341, 0x5206, 0x7406, 0x89E3, 0x3055, 0x308C, 0x3066,
     0x3044, 0x307E, 0x3059, 0x3002, 0x5FDC, 0x7528, 0x554F, 0x984C, 0x306B, 0x6311, 0x6226,
     0x3057, 0x307E, 0x3057, 0x3087, 0x3046]"

definition calculateSuggestedDifficulty :: "rat \<Rightarrow> int \<Rightarrow> int" where
  "calculateSuggestedDifficulty avgProficiency lvl =
     (if avgProficiency \<ge> 80 then lvl + 1
      else if avgProficiency \<ge> 60 then lvl
      else max 1 (lvl - 1))"

definition getDifficultyForTopic :: "int \<Rightarrow> difficulty" where
  "getDifficultyForTopic proficiency =
     (if proficiency < 30 then Beginner
      else if proficiency < 70 then Intermediate
      else Advanced)"

definition calculateLearningMetrics :: "store \<Rightarrow> jsstring \<Rightarrow> error + LearningMetrics" where
  "calculateLearningMetrics db userId =
     (case db userId of
        None \<Rightarrow> Inl (Error (utf16 ''Character state not found''))
      | Some cs \<Rightarrow>
          (let proficiency = \<lparr>algebra = understandingAlgebra cs,
                 geometry = understandingGeometry cs,
                 functions' = understandingFunctions cs,
                 probability = understandingProbability cs\<rparr>;
               scored = entries proficiency;
               struggling = map fst (filter (\<lambda>(t, score). score < 30) scored);
               mastered = map fst (filter (\<lambda>(t, score). score \<ge> 80) scored);
               averageProficiency = of_int (foldl (+) 0 (map snd scored)) / 4
           in Inr \<lparr>m_totalProblems = totalProblems cs,
                    topicProficiency = proficiency,
                    currentLevel = level cs,
                    suggestedLevel = calculateSuggestedDifficulty averageProficiency (level cs),
                    strugglingTopics = struggling,
                    masteredTopics = mastered\<rparr>))"

text \<open>
  \<open>metrics.topicProficiency[t]\<close> for one of the four topic names (the only names it is
  read at).
\<close>

definition proficiencyAt :: "Understanding \<Rightarrow> jsstring \<Rightarrow> int" where
  "proficiencyAt u t =
     (if t = utf16 ''algebra'' then algebra u
      else if t = utf16 ''geometry'' then geometry u
      else if t = utf16 ''functions'' then functions' u
      else probability u)"

text \<open>
  \<open>topics.reduce((a, b) => p[a] < p[b] ? a : b)\<close> over the four topic names: the first
  name is the start value, and a later name replaces the held one unless the held one is
  strictly lower.
\<close>

definition weakestOf :: "Understanding \<Rightarrow> jsstring" where
  "weakestOf u =
     foldl (\<lambda>a b. if proficiencyAt u a < proficiencyAt u b then a else b)
       (utf16 ''algebra'') [utf16 ''geometry'', utf16 ''functions'', utf16 ''probability'']"

definition recommendationsOf :: "LearningMetrics \<Rightarrow> AdaptiveRecommendation list" where
  "recommendationsOf metrics =
     (let forStruggling = map (\<lambda>t.
            \<lparr>recommendedTopic = t, difficultyLevel = Beginner, questionType = Concept,
             focusAreas = [t], reasoning = t @ reasonStruggling\<rparr>) (strugglingTopics metrics);
          forBalance =
            (if length (strugglingTopics metrics) = 0 then
               (let weakestTopic = weakestOf (topicProficiency metrics);
                    difficulty =
                      getDifficultyForTopic (proficiencyAt (topicProficiency metrics) weakestTopic)
                in [\<lparr>recommendedTopic = weakestTopic, difficultyLevel = difficulty,
                      questionType = Application, focusAreas = [weakestTopic],
                      reasoning = reasonBalancedPrefix @ weakestTopic @ reasonBalancedSuffix\<rparr>])
             else []);
          forMastered = map (\<lambda>t.
            \<lparr>recommendedTopic = t, difficultyLevel = Advanced, questionType = ProblemSolving,
             focusAreas = [t], reasoning = t @ reasonMastered\<rparr>) (masteredTopics metrics)
      in take 3 (forStruggling @ forBalance @ forMastered))"

definition generateRecommendations ::
  "store \<Rightarrow> jsstring \<Rightarrow> error + AdaptiveRecommendation list" where
  "generateRecommendations db userId =
     (case calculateLearningMetrics db userId of
        Inl e \<Rightarrow> Inl e
      | Inr metrics \<Rightarrow> Inr (recommendationsOf metrics))"

section \<open>useCharacterState: the local state update\<close>

text \<open>
  The remainder operator of the source takes the sign of the dividend.
\<close>

definition jsRemainder :: "int \<Rightarrow> int \<Rightarrow> int" where
  "jsRemainder a b = (if a < 0 then - ((- a) mod \<bar>b\<bar>) else a mod \<bar>b\<bar>)"

text \<open>
  The state update inside \<open>updateCharacterState\<close> of the hook. A topic that is one of
  the four keys raises that key's value, capped at 100. Any other name leaves the four
  values as they are (an inherited name only adds an unrelated property to the object).
\<close>

definition raiseTopic :: "Understanding \<Rightarrow> jsstring \<Rightarrow> int \<Rightarrow> Understanding" where
  "raiseTopic u currentTopic expGain =
     (if currentTopic = utf16 ''algebra'' then u\<lparr>algebra := min (algebra u + expGain) 100\<rparr>
      else if currentTopic = utf16 ''geometry'' then
        u\<lparr>geometry := min (geometry u + expGain) 100\<rparr>
      else if currentTopic = utf16 ''functions'' then
        u\<lparr>functions' := min (functions' u + expGain) 100\<rparr>
      else if currentTopic = utf16 ''probability'' then
        u\<lparr>probability := min (probability u + expGain) 100\<rparr>
      else u)"

definition updateLocalState :: "CharacterState \<Rightarrow> int \<Rightarrow> mood \<Rightarrow> jsstring \<Rightarrow> CharacterState" where
  "updateLocalState prev expGain newMood' currentTopic =
     (let newExp = cs_experience prev + expGain;
          newLevel = newExp div 100 + 1;
          newUnderstanding = raiseTopic (cs_understanding prev) currentTopic expGain
      in prev\<lparr>cs_experience := jsRemainder newExp 100,
              cs_level := newLevel,
              cs_understanding := newUnderstanding,
              cs_mood := newMood',
              cs_totalProblems := cs_totalProblems prev + 1\<rparr>)"

definition initialLocalState :: CharacterState where
  "initialLocalState =
     \<lparr>cs_name = [0x30DE, 0x30CA], cs_level = 1, cs_experience = 0, cs_maxExp = 100,
      cs_understanding = \<lparr>algebra = 0, geometry = 0, functions' = 0, probability = 0\<rparr>,
      cs_mood = Curious, cs_totalProblems = 0,
      cs_personality = utf16 ''curious_student''\<rparr>"

section \<open>Reachable stored states\<close>

text \<open>
  The rows that \<open>addExperience\<close> can store, starting from the row of a new user, when
  every gain lies between 0 and 100 (the answer evaluation never awards more than 30).
\<close>

inductive reachable :: "CharacterStateRow \<Rightarrow> bool" where
  initial: "reachable newRow"
| update: "reachable s \<Longrightarrow> db userId = Some s \<Longrightarrow> 0 \<le> expGain \<Longrightarrow> expGain \<le> 100
     \<Longrightarrow> addExperience db userId expGain topic = Inr (db', s') \<Longrightarrow> reachable s'"

text \<open>All four understanding values of a row, or of a local state, lie in 0..100.\<close>

definition rowInRange :: "CharacterStateRow \<Rightarrow> bool" where
  "rowInRange r = list_all (\<lambda>t. 0 \<le> understandingOf r t \<and> understandingOf r t \<le> 100) topics"

definition understandingInRange :: "Understanding \<Rightarrow> bool" where
  "understandingInRange u = list_all (\<lambda>t. 0 \<le> proficiencyAt u t \<and> proficiencyAt u t \<le> 100) topics"

text \<open>
  The proficiency snapshot that \<open>calculateLearningMetrics\<close> reads off a row, and the
  pair of topic and question type of a recommendation.
\<close>

definition rowProficiency :: "CharacterStateRow \<Rightarrow> Understanding" where
  "rowProficiency cs =
     \<lparr>algebra = understandingAlgebra cs, geometry = understandingGeometry cs,
      functions' = understandingFunctions cs, probability = understandingProbability cs\<rparr>"

definition topicAndType :: "AdaptiveRecommendation \<Rightarrow> jsstring \<times> questionType" where
  "topicAndType r = (recommendedTopic r, questionType r)"

text \<open>Example rows and requests for the concrete evaluations below.\<close>

definition user1 :: jsstring where
  "user1 = utf16 ''u1''"

definition masteredRow :: CharacterStateRow where
  "masteredRow = newRow\<lparr>understandingAlgebra := 80, understandingGeometry := 90,
     understandingFunctions := 90, understandingProbability := 90\<rparr>"

definition mixedRow :: CharacterStateRow where
  "mixedRow = newRow\<lparr>understandingAlgebra := 20, understandingGeometry := 85,
     understandingFunctions := 50, understandingProbability := 50\<rparr>"

definition skewedUpdate :: CharacterUpdateData where
  "skewedUpdate = emptyUpdate\<lparr>u_understandingAlgebra := Some 150,
     u_understandingGeometry := Some (- 20)\<rparr>"

definition zeroUnderstanding :: Understanding where
  "zeroUnderstanding = \<lparr>algebra = 0, geometry = 0, functions' = 0, probability = 0\<rparr>"

text \<open>
  An evaluation request on algebra (the answer is the first algebra keyword, the word
  for equation), a question request on algebra, an error of the model call (here a
  timeout), and a model reply of one word of praise.
\<close>

definition algebraRequest :: EvaluationParams where
  "algebraRequest =
     \<lparr>e_userAnswer = [0x65B9, 0x7A0B, 0x5F0F], e_topic = utf16 ''algebra'',
      e_characterState = initialLocalState, e_conversationHistory = []\<rparr>"

definition callTimeout :: error where
  "callTimeout = Error (utf16 ''deadline exceeded'')"

definition praiseReply :: jsstring where
  "praiseReply = [0x3059, 0x3054, 0x3044]"

definition algebraQuestionRequest :: QuestionGenerationParams where
  "algebraQuestionRequest =
     \<lparr>q_topic = utf16 ''algebra'', q_characterLevel = 1, q_understanding = zeroUnderstanding,
      q_conversationHistory = []\<rparr>"

text \<open>
  A question for a topic and an understanding snapshot: a template of that topic's pool
  at the difficulty the snapshot gives, as it stands or after a variation phrase and a
  space.
\<close>

definition fromTopicPool :: "Understanding \<Rightarrow> jsstring \<Rightarrow> jsstring \<Rightarrow> bool" where
  "fromTopicPool u t question =
     (case map_of questionTemplates t of
        None \<Rightarrow> False
      | Some ts \<Rightarrow>
          list_ex (\<lambda>template. template \<noteq> []
              \<and> (question = template
                   \<or> list_ex (\<lambda>v. question = v @ [0x20] @ template) variations))
            (templatesAt ts (difficultyFor (currentUnderstandingOf u t))))"

section \<open>Auxiliary facts\<close>

lemma utf16_topic_neq [simp]:
  "utf16 ''algebra'' \<noteq> utf16 ''geometry''" "utf16 ''algebra'' \<noteq> utf16 ''functions''"
  "utf16 ''algebra'' \<noteq> utf16 ''probability''" "utf16 ''geometry'' \<noteq> utf16 ''functions''"
  "utf16 ''geometry'' \<noteq> utf16 ''probability''" "utf16 ''functions'' \<noteq> utf16 ''probability''"
  "utf16 ''geometry'' \<noteq> utf16 ''algebra''" "utf16 ''functions'' \<noteq> utf16 ''algebra''"
  "utf16 ''probability'' \<noteq> utf16 ''algebra''" "utf16 ''functions'' \<noteq> utf16 ''geometry''"
  "utf16 ''probability'' \<noteq> utf16 ''geometry''" "utf16 ''probability'' \<noteq> utf16 ''functions''"
  "utf16 ''algebra'' \<noteq> []" "utf16 ''geometry'' \<noteq> []"
  "utf16 ''functions'' \<noteq> []" "utf16 ''probability'' \<noteq> []"
  by (simp_all add: utf16_def)

lemma topics_cases:
  "t \<in> set topics \<longleftrightarrow> t = utf16 ''algebra'' \<or> t = utf16 ''geometry''
     \<or> t = utf16 ''functions'' \<or> t = utf16 ''probability''"
  by (auto simp: topics_def)

lemma distinct_topics: "distinct topics"
  by (simp add: topics_def)

lemma user1_lookup: "[user1 \<mapsto> r] user1 = Some r"
  by simp

subsection \<open>The stored state\<close>

lemma addExperience_stored:
  assumes "db userId = Some s"
  shows "addExperience db userId expGain topic =
           Inr (db(userId \<mapsto> mergeUpdate s (experienceUpdate s expGain topic)),
                mergeUpdate s (experienceUpdate s expGain topic))"
  using assms
  by (simp add: addExperience_def getCharacterState_def updateCharacterState_def Let_def)

lemma experienceUpdate_fields:
  "u_experience (experienceUpdate s g topic) = Some (experience s + g)"
  "u_level (experienceUpdate s g topic)
     = Some (min ((experience s + g) div 100 + 1) (level s + 1))"
  "u_totalProblems (experienceUpdate s g topic) = Some (totalProblems s + 1)"
  "u_mood (experienceUpdate s g topic) = None"
  by (simp_all add: experienceUpdate_def emptyUpdate_def Let_def split: option.splits)

lemma experienceUpdate_understanding:
  "u_understandingAlgebra (experienceUpdate s g topic) =
     (if topic = Some (utf16 ''algebra'')
      then Some (min 100 (understandingAlgebra s + min 5 g)) else None)"
  "u_understandingGeometry (experienceUpdate s g topic) =
     (if topic = Some (utf16 ''geometry'')
      then Some (min 100 (understandingGeometry s + min 5 g)) else None)"
  "u_understandingFunctions (experienceUpdate s g topic) =
     (if topic = Some (utf16 ''functions'')
      then Some (min 100 (understandingFunctions s + min 5 g)) else None)"
  "u_understandingProbability (experienceUpdate s g topic) =
     (if topic = Some (utf16 ''probability'')
      then Some (min 100 (understandingProbability s + min 5 g)) else None)"
  by (auto simp: experienceUpdate_def emptyUpdate_def Let_def split: option.splits)

lemma merged_fields:
  "mood (mergeUpdate s (experienceUpdate s g topic)) = mood s"
  "experience (mergeUpdate s (experienceUpdate s g topic)) = experience s + g"
  "level (mergeUpdate s (experienceUpdate s g topic))
     = min ((experience s + g) div 100 + 1) (level s + 1)"
  "totalProblems (mergeUpdate s (experienceUpdate s g topic)) = totalProblems s + 1"
  by (simp_all add: mergeUpdate_def orElse_def experienceUpdate_fields)

lemma merged_understandingOf:
  assumes "t \<in> set topics" "t' \<in> set topics"
  shows "understandingOf (mergeUpdate s (experienceUpdate s g (Some t))) t' =
           (if t' = t then min 100 (understandingOf s t + min 5 g) else understandingOf s t')"
  using assms
  by (auto simp: topics_cases understandingOf_def mergeUpdate_def orElse_def
      experienceUpdate_understanding)

lemma rowInRange_iff:
  "rowInRange r \<longleftrightarrow>
     0 \<le> understandingAlgebra r \<and> understandingAlgebra r \<le> 100
   \<and> 0 \<le> understandingGeometry r \<and> understandingGeometry r \<le> 100
   \<and> 0 \<le> understandingFunctions r \<and> understandingFunctions r \<le> 100
   \<and> 0 \<le> understandingProbability r \<and> understandingProbability r \<le> 100"
  by (auto simp: rowInRange_def topics_def understandingOf_def)

lemma understandingInRange_iff:
  "understandingInRange u \<longleftrightarrow>
     0 \<le> algebra u \<and> algebra u \<le> 100 \<and> 0 \<le> geometry u \<and> geometry u \<le> 100
   \<and> 0 \<le> functions' u \<and> functions' u \<le> 100
   \<and> 0 \<le> probability u \<and> probability u \<le> 100"
  by (auto simp: understandingInRange_def topics_def proficiencyAt_def)

lemma merged_in_range:
  assumes "rowInRange s" and "0 \<le> g"
  shows "rowInRange (mergeUpdate s (experienceUpdate s g topic))"
  using assms
  by (simp add: rowInRange_iff mergeUpdate_def orElse_def experienceUpdate_understanding)

lemma raiseTopic_in_range:
  assumes "understandingInRange u" and "0 \<le> g"
  shows "understandingInRange (raiseTopic u t g)"
  using assms by (simp add: understandingInRange_iff raiseTopic_def)

subsection \<open>Property lookup\<close>

lemma keywordTable_unknown: "t \<notin> set topics \<Longrightarrow> map_of keywordTable t = None"
  by (simp add: keywordTable_def topics_def)

lemma questionTemplates_unknown: "t \<notin> set topics \<Longrightarrow> map_of questionTemplates t = None"
  by (simp add: questionTemplates_def topics_def)

lemma constructor_inherited: "utf16 ''constructor'' \<in> set objectPrototypeNames"
  by (simp add: objectPrototypeNames_def)

lemma constructor_not_topic: "utf16 ''constructor'' \<notin> set topics"
  by (simp add: topics_def utf16_def)

lemma history_not_topic: "utf16 ''history'' \<notin> set topics"
  by (simp add: topics_def utf16_def)

lemma history_not_inherited: "utf16 ''history'' \<notin> set objectPrototypeNames"
  by (simp add: objectPrototypeNames_def utf16_def)

lemma calculus_not_topic: "utf16 ''calculus'' \<notin> set topics"
  by (simp add: topics_def utf16_def)

lemma calculus_not_inherited: "utf16 ''calculus'' \<notin> set objectPrototypeNames"
  by (simp add: objectPrototypeNames_def utf16_def)

subsection \<open>The empty answer\<close>

lemma hasExamples_Nil: "hasExamples [] = False"
  by (simp add: hasExamples_def exampleIndicators_def)

lemma hasStepByStep_Nil: "hasStepByStep [] = False"
  by (simp add: hasStepByStep_def stepIndicators_def)

lemma isPoliteAndClear_Nil: "isPoliteAndClear [] = False"
  by (simp add: isPoliteAndClear_def politeIndicators_def clarityIndicators_def)

lemma hasTopicKeywords_Nil: "t \<in> set topics \<Longrightarrow> hasTopicKeywords [] t = Inr False"
  by (auto simp: topics_def hasTopicKeywords_def getProperty_def keywordTable_def
      keywords_algebra_def keywords_geometry_def keywords_functions_def
      keywords_probability_def)

lemma wordCount_Nil: "length (splitWhiteSpace (trim [])) = 1"
  by (simp add: splitWhiteSpace_def trim_def)

lemma answerScore_Nil: "t \<in> set topics \<Longrightarrow> answerScore [] t = Inr 0"
  by (simp add: answerScore_def wordCount_Nil hasTopicKeywords_Nil hasExamples_Nil
      hasStepByStep_Nil isPoliteAndClear_Nil Let_def)

subsection \<open>The fallback paths\<close>

text \<open>
  When no client is configured, or its call fails, \<open>evaluateAnswer\<close> is the rule-based
  evaluation, which grades the answer for every topic that is not an inherited member
  name.
\<close>

lemma evaluateAnswer_falls_back:
  assumes "geminiService = None
    \<or> (\<exists>gemini e. geminiService = Some gemini \<and> gemini params = Inl e)"
  shows "evaluateAnswer geminiService params r1 r2 = evaluateWithFallback params r1 r2"
  using assms by (auto simp: evaluateAnswer_def fallbackEnabled_def)

lemma assessAnswerQuality_returns:
  assumes "t \<notin> set objectPrototypeNames"
  shows "\<exists>q. assessAnswerQuality answer t = Inr q"
  using assms
  by (auto simp: assessAnswerQuality_def answerScore_def hasTopicKeywords_def
      getProperty_def Let_def split: option.splits)

text \<open>Every template pool is non-empty and holds no empty question.\<close>

lemma pool_facts:
  assumes "map_of questionTemplates t = Some ts"
  shows "templatesAt ts d \<noteq> [] \<and> [] \<notin> set (templatesAt ts d)"
proof -
  have "(t, ts) \<in> set questionTemplates"
    using assms by (rule map_of_SomeD)
  then consider
      "ts = \<lparr>beginner = algebra_beginner, intermediate = algebra_intermediate,
          advanced = algebra_advanced\<rparr>"
    | "ts = \<lparr>beginner = geometry_beginner, intermediate = geometry_intermediate,
          advanced = geometry_advanced\<rparr>"
    | "ts = \<lparr>beginner = functions_beginner, intermediate = functions_intermediate,
          advanced = functions_advanced\<rparr>"
    | "ts = \<lparr>beginner = probability_beginner, intermediate = probability_intermediate,
          advanced = probability_advanced\<rparr>"
    by (auto simp: questionTemplates_def)
  then show ?thesis
  proof cases
    case 1
    then show ?thesis
      by (cases d) (simp_all add: templatesAt_def algebra_beginner_def
          algebra_intermediate_def algebra_advanced_def)
  next
    case 2
    then show ?thesis
      by (cases d) (simp_all add: templatesAt_def geometry_beginner_def
          geometry_intermediate_def geometry_advanced_def)
  next
    case 3
    then show ?thesis
      by (cases d) (simp_all add: templatesAt_def functions_beginner_def
          functions_intermediate_def functions_advanced_def)
  next
    case 4
    then show ?thesis
      by (cases d) (simp_all add: templatesAt_def probability_beginner_def
          probability_intermediate_def probability_advanced_def)
  qed
qed

lemma randomElement_in_set: "xs \<noteq> [] \<Longrightarrow> randomElement xs r \<in> set xs"
  by (simp add: randomElement_def)

lemma adjust_nonempty: "q \<noteq> [] \<Longrightarrow> adjustQuestionBasedOnHistory q h r \<noteq> []"
  by (simp add: adjustQuestionBasedOnHistory_def addVariation_def Let_def)

lemma tryGenerateQuestion_nonempty:
  assumes "tryGenerateQuestion params r1 r2 = Inr q"
  shows "q \<noteq> []"
proof -
  from assms obtain ts where ts: "map_of questionTemplates (q_topic params) = Some ts"
    and q: "q = adjustQuestionBasedOnHistory
                  (randomElement (templatesAt ts (difficultyFor
                     (currentUnderstandingOf (q_understanding params) (q_topic params)))) r1)
                  (q_conversationHistory params) r2"
    by (auto simp: tryGenerateQuestion_def getProperty_def Let_def
        split: option.splits if_splits)
  let ?pool = "templatesAt ts
      (difficultyFor (currentUnderstandingOf (q_understanding params) (q_topic params)))"
  have "?pool \<noteq> []" "[] \<notin> set ?pool" using pool_facts [OF ts] by simp_all
  then have "randomElement ?pool r1 \<noteq> []"
    using randomElement_in_set [of ?pool r1] by metis
  then show ?thesis unfolding q by (rule adjust_nonempty)
qed

lemma fallbackQuestion_nonempty: "fallbackQuestion \<noteq> []"
  by (simp add: fallbackQuestion_def)

text \<open>\<open>generateQuestion\<close> never raises and never returns the empty string.\<close>

lemma generateQuestion_returns: "\<exists>q. generateQuestion params r1 r2 = Inr q \<and> q \<noteq> []"
proof (cases "tryGenerateQuestion params r1 r2")
  case (Inl e)
  then show ?thesis by (simp add: generateQuestion_def fallbackQuestion_nonempty)
next
  case (Inr q)
  then show ?thesis by (simp add: generateQuestion_def tryGenerateQuestion_nonempty)
qed

lemma tryGenerateQuestion_unknown:
  assumes "q_topic params \<notin> set topics"
  shows "\<exists>e. tryGenerateQuestion params r1 r2 = Inl e"
  using assms
  by (simp add: tryGenerateQuestion_def getProperty_def questionTemplates_unknown Let_def)

text \<open>
  For each of the four topics, \<open>generateQuestion\<close> returns a template of that topic's
  pool at the difficulty of the request, as it stands or after a variation phrase.
\<close>

lemma topics_not_inherited: "t \<in> set topics \<Longrightarrow> t \<notin> set objectPrototypeNames"
  by (auto simp: topics_def objectPrototypeNames_def utf16_def)

lemma questionTemplates_known:
  "t \<in> set topics \<Longrightarrow> \<exists>ts. map_of questionTemplates t = Some ts"
  by (auto simp: topics_def questionTemplates_def)

lemma randomElement_variation: "randomElement variations r \<in> set variations"
  by (rule randomElement_in_set) (simp add: variations_def)

lemma adjust_shape:
  "adjustQuestionBasedOnHistory q h r = q
   \<or> (\<exists>v \<in> set variations. adjustQuestionBasedOnHistory q h r = v @ [0x20] @ q)"
  using randomElement_variation [of r]
  by (auto simp: adjustQuestionBasedOnHistory_def addVariation_def Let_def)

lemma generateQuestion_known_topic:
  assumes "q_topic qparams \<in> set topics"
  shows "\<exists>question. generateQuestion qparams r1 r2 = Inr question
     \<and> fromTopicPool (q_understanding qparams) (q_topic qparams) question"
proof -
  obtain ts where ts: "map_of questionTemplates (q_topic qparams) = Some ts"
    using assms questionTemplates_known by blast
  let ?pool = "templatesAt ts
      (difficultyFor (currentUnderstandingOf (q_understanding qparams) (q_topic qparams)))"
  let ?sel = "randomElement ?pool r1"
  let ?q = "adjustQuestionBasedOnHistory ?sel (q_conversationHistory qparams) r2"
  have run: "generateQuestion qparams r1 r2 = Inr ?q"
    by (simp add: generateQuestion_def tryGenerateQuestion_def getProperty_def ts Let_def)
  have pool: "?pool \<noteq> []" "[] \<notin> set ?pool" using pool_facts [OF ts] by simp_all
  then have sel: "?sel \<in> set ?pool" "?sel \<noteq> []"
    using randomElement_in_set [of ?pool r1] by auto
  have "?q = ?sel \<or> (\<exists>v \<in> set variations. ?q = v @ [0x20] @ ?sel)"
    by (rule adjust_shape)
  then have "fromTopicPool (q_understanding qparams) (q_topic qparams) ?q"
    using sel by (auto simp: fromTopicPool_def ts list_ex_iff)
  with run show ?thesis by blast
qed

text \<open>
  The rule-based evaluation never reads the character state beyond the prior mood, which
  \<open>determineNewMood\<close> ignores.
\<close>

lemma evaluateWithFallback_state:
  "evaluateWithFallback (params\<lparr>e_characterState := cs'\<rparr>) r1 r2 = evaluateWithFallback params r1 r2"
  by (cases "assessAnswerQuality (e_userAnswer params) (e_topic params)")
     (simp_all add: evaluateWithFallback_def determineNewMood_def split: quality.splits)

lemma algebraRequest_quality:
  "assessAnswerQuality (e_userAnswer algebraRequest) (e_topic algebraRequest) = Inr Average"
  by (simp add: algebraRequest_def assessAnswerQuality_def answerScore_def
      hasTopicKeywords_def getProperty_def keywordTable_def keywords_algebra_def
      hasExamples_def exampleIndicators_def hasStepByStep_def stepIndicators_def
      isPoliteAndClear_def politeIndicators_def clarityIndicators_def
      splitWhiteSpace_def trim_def isWhiteSpace_def Let_def)

text \<open>
  Outside the four topics, a topic that names an inherited member makes the rule-based
  evaluation raise: the keyword lookup finds the inherited member, which has no \<open>some\<close>
  method.
\<close>

lemma evaluateAnswer_inherited_topic:
  "evaluateAnswer None
     \<lparr>e_userAnswer = answer, e_topic = utf16 ''constructor'', e_characterState = cs,
      e_conversationHistory = h\<rparr> r1 r2
   = Inl TypeError"
  by (simp add: evaluateAnswer_def fallbackEnabled_def evaluateWithFallback_def
      assessAnswerQuality_def answerScore_def hasTopicKeywords_def getProperty_def
      keywordTable_unknown constructor_not_topic constructor_inherited Let_def)

subsection \<open>Recommendations\<close>

lemma fst_entries: "map fst (entries u) = topics"
  by (simp add: entries_def topics_def)

lemma selected_set:
  "set (map fst (filter (\<lambda>(t, score). P score) (entries u)))
     = {t \<in> set topics. P (proficiencyAt u t)}"
  by (auto simp: entries_def topics_def proficiencyAt_def)

lemma selected_distinct: "distinct (map fst (filter (\<lambda>(t, score). P score) (entries u)))"
  by (rule distinct_map_filter) (simp add: fst_entries distinct_topics)

lemma weakestOf_least:
  "t \<in> set topics \<Longrightarrow> proficiencyAt u (weakestOf u) \<le> proficiencyAt u t"
  by (auto simp: weakestOf_def topics_def proficiencyAt_def)

lemma metrics_stored:
  assumes "db userId = Some cs"
  shows "\<exists>m. calculateLearningMetrics db userId = Inr m
     \<and> topicProficiency m = rowProficiency cs
     \<and> strugglingTopics m
         = map fst (filter (\<lambda>(t, score). score < 30) (entries (rowProficiency cs)))
     \<and> masteredTopics m
         = map fst (filter (\<lambda>(t, score). 80 \<le> score) (entries (rowProficiency cs)))"
  using assms by (simp add: calculateLearningMetrics_def rowProficiency_def Let_def)

lemma rowProficiency_at:
  "t \<in> set topics \<Longrightarrow> proficiencyAt (rowProficiency cs) t = understandingOf cs t"
  by (auto simp: topics_def proficiencyAt_def rowProficiency_def understandingOf_def)

lemma recommendation_topics:
  "map recommendedTopic (recommendationsOf m) =
     take 3 (strugglingTopics m
       @ (if strugglingTopics m = [] then [weakestOf (topicProficiency m)] else [])
       @ masteredTopics m)"
  by (simp add: recommendationsOf_def Let_def take_map comp_def)

lemma recommendation_kinds:
  "map topicAndType (recommendationsOf m) =
     take 3 (map (\<lambda>t. (t, Concept)) (strugglingTopics m)
       @ (if strugglingTopics m = []
          then [(weakestOf (topicProficiency m), Application)] else [])
       @ map (\<lambda>t. (t, ProblemSolving)) (masteredTopics m))"
  by (simp add: recommendationsOf_def Let_def take_map comp_def topicAndType_def)

lemma distinct_joined:
  assumes "distinct S" "distinct M" "set S \<inter> set M = {}" "w \<notin> set M"
  shows "distinct (take 3 (S @ (if S = [] then [w] else []) @ M))"
  using assms by (intro distinct_take) auto

lemma distinct_kinds:
  assumes "distinct S" "distinct M"
  shows "distinct (take 3 (map (\<lambda>t. (t, Concept)) S
       @ (if S = [] then [(w, Application)] else [])
       @ map (\<lambda>t. (t, ProblemSolving)) M))"
  using assms by (intro distinct_take) (auto simp: distinct_map inj_on_def)

section \<open>The claims\<close>

text \<open>
  C1. When no AI client is configured, or the client's call fails with whatever error
  (transport error, timeout, quota), an evaluation request on one of the four topics
  does not fail: \<open>evaluateAnswer\<close> returns the rule-based result, built from the quality
  that \<open>assessAnswerQuality\<close> gives the answer. A question-generation request on one of
  the four topics, which involves no AI call at all, returns a non-empty question of
  that topic's template pool and raises nothing.
\<close>

theorem C1_ai_failure_falls_back:
  assumes "geminiService = None
    \<or> (\<exists>gemini e. geminiService = Some gemini \<and> gemini params = Inl e)"
    and "e_topic params \<in> set topics"
    and "q_topic qparams \<in> set topics"
  shows "(\<exists>q. assessAnswerQuality (e_userAnswer params) (e_topic params) = Inr q
          \<and> evaluateAnswer geminiService params r1 r2 =
              Inr \<lparr>response = generateResponse q (e_topic params) (e_userAnswer params) r1 r2,
                   experienceGain = calculateExperienceGain q (length (e_userAnswer params)),
                   newMood = determineNewMood q (cs_mood (e_characterState params)),
                   understandingImprovement = calculateUnderstandingImprovement q\<rparr>)
       \<and> (\<exists>question. generateQuestion qparams r3 r4 = Inr question \<and> question \<noteq> []
            \<and> fromTopicPool (q_understanding qparams) (q_topic qparams) question)"
proof -
  have fb: "evaluateAnswer geminiService params r1 r2 = evaluateWithFallback params r1 r2"
    using assms(1) by (rule evaluateAnswer_falls_back)
  obtain q where q: "assessAnswerQuality (e_userAnswer params) (e_topic params) = Inr q"
    using assms(2) topics_not_inherited assessAnswerQuality_returns by blast
  have "evaluateWithFallback params r1 r2 =
      Inr \<lparr>response = generateResponse q (e_topic params) (e_userAnswer params) r1 r2,
           experienceGain = calculateExperienceGain q (length (e_userAnswer params)),
           newMood = determineNewMood q (cs_mood (e_characterState params)),
           understandingImprovement = calculateUnderstandingImprovement q\<rparr>"
    by (simp add: evaluateWithFallback_def q)
  with fb q have first: "\<exists>q. assessAnswerQuality (e_userAnswer params) (e_topic params) = Inr q
          \<and> evaluateAnswer geminiService params r1 r2 =
              Inr \<lparr>response = generateResponse q (e_topic params) (e_userAnswer params) r1 r2,
                   experienceGain = calculateExperienceGain q (length (e_userAnswer params)),
                   newMood = determineNewMood q (cs_mood (e_characterState params)),
                   understandingImprovement = calculateUnderstandingImprovement q\<rparr>"
    by simp
  obtain question where g: "generateQuestion qparams r3 r4 = Inr question"
    and p: "fromTopicPool (q_understanding qparams) (q_topic qparams) question"
    using generateQuestion_known_topic [OF assms(3)] by blast
  have "question \<noteq> []"
    using generateQuestion_returns [of qparams r3 r4] g by simp
  with first g p show ?thesis by blast
qed

theorem C1_ai_failure_falls_back_witness:
  "(\<exists>gemini e. Some (evaluateAnswerGemini (\<lambda>p. Inl callTimeout)) = Some gemini
        \<and> gemini algebraRequest = Inl e)
   \<and> e_topic algebraRequest \<in> set topics
   \<and> q_topic algebraQuestionRequest \<in> set topics
   \<and> (\<exists>q. assessAnswerQuality (e_userAnswer algebraRequest) (e_topic algebraRequest) = Inr q
        \<and> evaluateAnswer (Some (evaluateAnswerGemini (\<lambda>p. Inl callTimeout))) algebraRequest 7 1 =
            Inr \<lparr>response = generateResponse q (e_topic algebraRequest)
                              (e_userAnswer algebraRequest) 7 1,
                 experienceGain = calculateExperienceGain q
                                    (length (e_userAnswer algebraRequest)),
                 newMood = determineNewMood q (cs_mood (e_characterState algebraRequest)),
                 understandingImprovement = calculateUnderstandingImprovement q\<rparr>)
   \<and> (\<exists>question. generateQuestion algebraQuestionRequest 2 0 = Inr question
        \<and> question \<noteq> []
        \<and> fromTopicPool (q_understanding algebraQuestionRequest)
             (q_topic algebraQuestionRequest) question)"
proof -
  have failing: "\<exists>gemini e. Some (evaluateAnswerGemini (\<lambda>p. Inl callTimeout)) = Some gemini
      \<and> gemini algebraRequest = Inl e"
    by (simp add: evaluateAnswerGemini_def)
  then have hyp: "Some (evaluateAnswerGemini (\<lambda>p. Inl callTimeout)) = None
      \<or> (\<exists>gemini e. Some (evaluateAnswerGemini (\<lambda>p. Inl callTimeout)) = Some gemini
            \<and> gemini algebraRequest = Inl e)"
    by (rule disjI2)
  have t: "e_topic algebraRequest \<in> set topics"
    by (simp add: algebraRequest_def topics_def)
  have t': "q_topic algebraQuestionRequest \<in> set topics"
    by (simp add: algebraQuestionRequest_def topics_def)
  show ?thesis
    using failing t t' C1_ai_failure_falls_back [OF hyp t t', of 7 1 2 0]
    by blast
qed

text \<open>
  C2. For each of the four qualities and every answer length, the experience gain is
  \<open>min 30 (base + bonus)\<close>, with the base table 25/15/8/3 and a bonus of 5 above 100
  characters, else 2 above 50, else 0: the two bonuses never add up.
\<close>

theorem C2_experience_gain:
  "calculateExperienceGain q n = min 30 (spec_base q + spec_bonus n)"
  by (cases q) (simp_all add: calculateExperienceGain_def baseExp_def spec_bonus_def Let_def)

text \<open>
  C3. For every stored row and every experience gain, one \<open>addExperience\<close> call succeeds
  and stores a level that is at most the previous level plus one.
\<close>

theorem C3_level_step:
  assumes "db userId = Some s"
  shows "\<exists>db' s'. addExperience db userId expGain topic = Inr (db', s')
           \<and> db' userId = Some s' \<and> level s' \<le> level s + 1"
proof -
  let ?s' = "mergeUpdate s (experienceUpdate s expGain topic)"
  have "level ?s' \<le> level s + 1"
    by (simp add: merged_fields)
  then show ?thesis
    using assms addExperience_stored [of db userId s expGain topic] by simp
qed

theorem C3_level_step_witness:
  "[user1 \<mapsto> newRow] user1 = Some newRow
   \<and> (\<exists>db' s'. addExperience [user1 \<mapsto> newRow] user1 1000 (Some (utf16 ''algebra''))
          = Inr (db', s')
        \<and> db' user1 = Some s' \<and> level s' \<le> level newRow + 1)"
  using C3_level_step [of "[user1 \<mapsto> newRow]" user1 newRow 1000 "Some (utf16 ''algebra'')"]
  by simp

text \<open>
  C4, as amended. For every stored row, the recommendation list has at most three
  entries and no two entries agree in both topic and question type. No topic appears
  twice when some topic's understanding is below 80. (When all four are at least 80, the
  lowest topic gets the balance entry and can get a mastered-topic entry as well.)
\<close>

theorem C4_recommendations:
  assumes "db userId = Some cs"
  shows "\<exists>recs. generateRecommendations db userId = Inr recs
     \<and> length recs \<le> 3
     \<and> distinct (map topicAndType recs)
     \<and> ((\<exists>t \<in> set topics. understandingOf cs t < 80)
          \<longrightarrow> distinct (map recommendedTopic recs))"
proof -
  let ?u = "rowProficiency cs"
  let ?S = "map fst (filter (\<lambda>(t, score). score < 30) (entries ?u))"
  let ?M = "map fst (filter (\<lambda>(t, score). 80 \<le> score) (entries ?u))"
  obtain m where m: "calculateLearningMetrics db userId = Inr m"
    and tp: "topicProficiency m = ?u" and st: "strugglingTopics m = ?S"
    and ma: "masteredTopics m = ?M"
    using assms metrics_stored [of db userId cs] by blast
  have run: "generateRecommendations db userId = Inr (recommendationsOf m)"
    by (simp add: generateRecommendations_def m)
  have len: "length (recommendationsOf m) \<le> 3"
    unfolding recommendationsOf_def Let_def by (simp del: take_append)
  have dS: "distinct ?S" and dM: "distinct ?M" by (rule selected_distinct)+
  have setS: "set ?S = {t \<in> set topics. proficiencyAt ?u t < 30}"
    and setM: "set ?M = {t \<in> set topics. 80 \<le> proficiencyAt ?u t}"
    by (rule selected_set)+
  have disj: "set ?S \<inter> set ?M = {}" unfolding setS setM by auto
  have kinds: "distinct (map topicAndType (recommendationsOf m))"
    unfolding recommendation_kinds st ma tp
    using dS dM by (rule distinct_kinds)
  have topics_distinct: "distinct (map recommendedTopic (recommendationsOf m))"
    if low: "\<exists>t \<in> set topics. understandingOf cs t < 80"
  proof -
    from low obtain t where t: "t \<in> set topics" "proficiencyAt ?u t < 80"
      by (auto simp: rowProficiency_at)
    have "proficiencyAt ?u (weakestOf ?u) < 80"
      using weakestOf_least [OF t(1), of ?u] t(2) by simp
    then have w: "weakestOf ?u \<notin> set ?M" unfolding setM by simp
    show ?thesis
      unfolding recommendation_topics st ma tp
      using dS dM disj w by (rule distinct_joined)
  qed
  from run len kinds topics_distinct show ?thesis by blast
qed

theorem C4_recommendations_witness:
  "[user1 \<mapsto> mixedRow] user1 = Some mixedRow
   \<and> understandingOf mixedRow (utf16 ''algebra'') < 80
   \<and> (\<exists>recs. generateRecommendations [user1 \<mapsto> mixedRow] user1 = Inr recs
        \<and> length recs \<le> 3 \<and> distinct (map topicAndType recs)
        \<and> distinct (map recommendedTopic recs))"
proof -
  have low: "understandingOf mixedRow (utf16 ''algebra'') < 80"
    by (simp add: understandingOf_def mixedRow_def newRow_def)
  then have "\<exists>t \<in> set topics. understandingOf mixedRow t < 80"
    by (auto simp: topics_def)
  then show ?thesis
    using low C4_recommendations [of "[user1 \<mapsto> mixedRow]" user1 mixedRow] by auto
qed

text \<open>
  The claim as stated fails: with algebra at 80 and the other three topics at 90, no
  topic is struggling, algebra is the lowest and gets the balance entry, all four are
  mastered, and the first three entries name algebra twice.
\<close>

theorem C4_counterexample:
  "(case generateRecommendations [user1 \<mapsto> masteredRow] user1 of
      Inl e \<Rightarrow> []
    | Inr recs \<Rightarrow> map topicAndType recs)
   = [(utf16 ''algebra'', Application), (utf16 ''algebra'', ProblemSolving),
      (utf16 ''geometry'', ProblemSolving)]"
  by (simp add: generateRecommendations_def calculateLearningMetrics_def masteredRow_def
      newRow_def entries_def recommendationsOf_def weakestOf_def proficiencyAt_def
      topicAndType_def Let_def)

text \<open>
  C5, as amended. Every row that \<open>addExperience\<close> can store, starting from the row of a
  new user and with every gain between 0 and 100, has level
  \<open>experience div 100 + 1\<close>.
\<close>

theorem C5_level_of_experience:
  assumes "reachable s"
  shows "level s = experience s div 100 + 1"
  using assms
proof (induction rule: reachable.induct)
  case initial
  show ?case by (simp add: newRow_def)
next
  case (update s db userId expGain topic db' s')
  have "addExperience db userId expGain topic =
          Inr (db(userId \<mapsto> mergeUpdate s (experienceUpdate s expGain topic)),
               mergeUpdate s (experienceUpdate s expGain topic))"
    using update.hyps(2) by (rule addExperience_stored)
  with update.hyps(5) have s': "s' = mergeUpdate s (experienceUpdate s expGain topic)"
    by simp
  have lv: "level s' = min ((experience s + expGain) div 100 + 1) (level s + 1)"
    and ex: "experience s' = experience s + expGain"
    by (simp_all add: s' merged_fields)
  have "(experience s + expGain) div 100 \<le> (experience s + 100) div 100"
    using update.hyps(4) by (intro zdiv_mono1) simp_all
  then have "(experience s + expGain) div 100 \<le> experience s div 100 + 1"
    by simp
  then show ?case using lv ex update.IH by simp
qed

theorem C5_level_of_experience_witness:
  "reachable (mergeUpdate newRow (experienceUpdate newRow 100 (Some (utf16 ''algebra''))))
   \<and> level (mergeUpdate newRow (experienceUpdate newRow 100 (Some (utf16 ''algebra''))))
       = experience (mergeUpdate newRow (experienceUpdate newRow 100 (Some (utf16 ''algebra''))))
           div 100 + 1"
proof -
  let ?s' = "mergeUpdate newRow (experienceUpdate newRow 100 (Some (utf16 ''algebra'')))"
  have run: "addExperience [user1 \<mapsto> newRow] user1 100 (Some (utf16 ''algebra''))
          = Inr ([user1 \<mapsto> newRow](user1 \<mapsto> ?s'), ?s')"
    by (rule addExperience_stored) simp
  have r: "reachable ?s'"
    using reachable.initial user1_lookup [of newRow] run
      reachable.update [of newRow "[user1 \<mapsto> newRow]" user1 100
        "Some (utf16 ''algebra'')" "[user1 \<mapsto> newRow](user1 \<mapsto> ?s')" ?s']
    by simp
  show ?thesis using r C5_level_of_experience [OF r] by simp
qed

text \<open>
  The claim as stated fails on both update paths. On the server, one update of a new
  user's row with a gain of 250 stores experience 250 and, by the cap of one level per
  update, level 2 instead of 3. In the hook, four updates of the initial local state
  with a gain of 30 each leave level 2 with the rolled-over experience 20.
\<close>

theorem C5_counterexample:
  "(case addExperience [user1 \<mapsto> newRow] user1 250 None of
      Inl e \<Rightarrow> None
    | Inr (db', s') \<Rightarrow> Some (level s', experience s', experience s' div 100 + 1))
     = Some (2, 250, 3)
   \<and> (let s4 = updateLocalState (updateLocalState (updateLocalState (updateLocalState
                initialLocalState 30 Happy (utf16 ''algebra'')) 30 Happy (utf16 ''algebra''))
                30 Happy (utf16 ''algebra'')) 30 Happy (utf16 ''algebra'')
      in (cs_level s4, cs_experience s4, cs_experience s4 div 100 + 1)) = (2, 20, 1)"
proof -
  have "addExperience [user1 \<mapsto> newRow] user1 250 None
          = Inr ([user1 \<mapsto> newRow](user1 \<mapsto> mergeUpdate newRow (experienceUpdate newRow 250 None)),
                 mergeUpdate newRow (experienceUpdate newRow 250 None))"
    by (rule addExperience_stored) simp
  then show ?thesis
    by (simp add: merged_fields newRow_def updateLocalState_def initialLocalState_def
        jsRemainder_def Let_def)
qed

text \<open>
  C6, as amended. For every non-negative gain, an update keeps the understanding values
  within 0..100 when they were within 0..100 before it: on the server, \<open>addExperience\<close>
  on a stored row, and in the hook, the local state update. (Nothing clamps a value that
  is out of range before the update.)
\<close>

theorem C6_understanding_range:
  assumes "0 \<le> expGain"
  shows "(db userId = Some s \<and> rowInRange s \<longrightarrow>
            (\<exists>db' s'. addExperience db userId expGain topic = Inr (db', s')
               \<and> db' userId = Some s' \<and> rowInRange s'))
       \<and> (understandingInRange (cs_understanding prev) \<longrightarrow>
            understandingInRange
              (cs_understanding (updateLocalState prev expGain m currentTopic)))"
proof (intro conjI impI)
  assume a: "db userId = Some s \<and> rowInRange s"
  then have "addExperience db userId expGain topic =
     Inr (db(userId \<mapsto> mergeUpdate s (experienceUpdate s expGain topic)),
          mergeUpdate s (experienceUpdate s expGain topic))"
    by (simp add: addExperience_stored)
  moreover have "rowInRange (mergeUpdate s (experienceUpdate s expGain topic))"
    using a assms by (simp add: merged_in_range)
  ultimately show "\<exists>db' s'. addExperience db userId expGain topic = Inr (db', s')
               \<and> db' userId = Some s' \<and> rowInRange s'"
    by simp
next
  assume "understandingInRange (cs_understanding prev)"
  then show "understandingInRange
      (cs_understanding (updateLocalState prev expGain m currentTopic))"
    using assms by (simp add: updateLocalState_def Let_def raiseTopic_in_range)
qed

theorem C6_understanding_range_witness:
  "(0::int) \<le> 30
   \<and> [user1 \<mapsto> mixedRow] user1 = Some mixedRow \<and> rowInRange mixedRow
   \<and> (\<exists>db' s'. addExperience [user1 \<mapsto> mixedRow] user1 30 (Some (utf16 ''geometry''))
          = Inr (db', s')
        \<and> db' user1 = Some s' \<and> rowInRange s')
   \<and> understandingInRange (cs_understanding initialLocalState)
   \<and> understandingInRange (cs_understanding
        (updateLocalState initialLocalState 30 Excited (utf16 ''geometry'')))"
proof -
  have r: "rowInRange mixedRow"
    by (simp add: rowInRange_iff mixedRow_def newRow_def)
  have u: "understandingInRange (cs_understanding initialLocalState)"
    by (simp add: understandingInRange_iff initialLocalState_def)
  show ?thesis
    using r u C6_understanding_range [of 30 "[user1 \<mapsto> mixedRow]" user1 mixedRow
        "Some (utf16 ''geometry'')" initialLocalState Excited "utf16 ''geometry''"]
    by simp
qed

text \<open>
  The claim as stated fails. The unvalidated state update can store any value: it puts
  algebra at 150 and geometry at -20. Nothing clamps them when the row is read again:
  after an update of geometry with a gain of 3, algebra is still 150 and geometry is
  -17.
\<close>

theorem C6_counterexample:
  "(case updateCharacterState [user1 \<mapsto> newRow] user1 skewedUpdate of
      Inl e \<Rightarrow> None
    | Inr (db1, s1) \<Rightarrow>
        (case addExperience db1 user1 3 (Some (utf16 ''geometry'')) of
           Inl e \<Rightarrow> None
         | Inr (db2, s2) \<Rightarrow>
             Some (understandingOf s2 (utf16 ''algebra''),
                   understandingOf s2 (utf16 ''geometry''))))
   = Some (150, - 17)"
proof -
  let ?s1 = "mergeUpdate newRow skewedUpdate"
  let ?db1 = "[user1 \<mapsto> ?s1]"
  let ?s2 = "mergeUpdate ?s1 (experienceUpdate ?s1 3 (Some (utf16 ''geometry'')))"
  have first: "updateCharacterState [user1 \<mapsto> newRow] user1 skewedUpdate = Inr (?db1, ?s1)"
    by (simp add: updateCharacterState_def Let_def)
  have second: "addExperience ?db1 user1 3 (Some (utf16 ''geometry''))
          = Inr (?db1(user1 \<mapsto> ?s2), ?s2)"
    by (rule addExperience_stored) simp
  have "understandingOf ?s2 (utf16 ''algebra'') = 150"
    "understandingOf ?s2 (utf16 ''geometry'') = - 17"
    by (simp_all add: understandingOf_def mergeUpdate_def orElse_def
        experienceUpdate_understanding skewedUpdate_def emptyUpdate_def newRow_def)
  then show ?thesis by (simp add: first second)
qed

text \<open>
  C7, as amended. For every topic outside the fixed set, \<open>generateQuestion\<close> returns the
  generic prompt (the error of its body never leaves it), and, unless the topic names
  an inherited member, \<open>hasTopicKeywords\<close> finds no keyword and returns false.
\<close>

theorem C7_unknown_topic:
  assumes "t \<notin> set topics"
  shows "generateQuestion \<lparr>q_topic = t, q_characterLevel = lvl, q_understanding = u,
            q_conversationHistory = h\<rparr> r1 r2 = Inr fallbackQuestion
       \<and> (t \<notin> set objectPrototypeNames \<longrightarrow> hasTopicKeywords answer t = Inr False)"
proof -
  obtain e where "tryGenerateQuestion \<lparr>q_topic = t, q_characterLevel = lvl,
      q_understanding = u, q_conversationHistory = h\<rparr> r1 r2 = Inl e"
    using assms tryGenerateQuestion_unknown
      [of "\<lparr>q_topic = t, q_characterLevel = lvl, q_understanding = u,
            q_conversationHistory = h\<rparr>" r1 r2]
    by auto
  then have "generateQuestion \<lparr>q_topic = t, q_characterLevel = lvl, q_understanding = u,
            q_conversationHistory = h\<rparr> r1 r2 = Inr fallbackQuestion"
    by (simp add: generateQuestion_def)
  moreover have "t \<notin> set objectPrototypeNames \<longrightarrow> hasTopicKeywords answer t = Inr False"
    using assms by (simp add: hasTopicKeywords_def getProperty_def keywordTable_unknown)
  ultimately show ?thesis by simp
qed

theorem C7_unknown_topic_witness:
  "utf16 ''calculus'' \<notin> set topics \<and> utf16 ''calculus'' \<notin> set objectPrototypeNames
   \<and> generateQuestion \<lparr>q_topic = utf16 ''calculus'', q_characterLevel = 3,
        q_understanding = zeroUnderstanding, q_conversationHistory = []\<rparr> 1 2
       = Inr fallbackQuestion
   \<and> hasTopicKeywords (keywords_algebra ! 0) (utf16 ''calculus'') = Inr False"
  using calculus_not_topic calculus_not_inherited
    C7_unknown_topic [of "utf16 ''calculus''" 3 zeroUnderstanding "[]" 1 2
      "keywords_algebra ! 0"]
  by simp

text \<open>
  The claim as stated fails: for the topic \<open>history\<close> no error reaches the caller.
  \<open>generateQuestion\<close> returns a string, the non-empty generic prompt, and
  \<open>hasTopicKeywords\<close> proceeds with the answer false.
\<close>

theorem C7_counterexample:
  "generateQuestion \<lparr>q_topic = utf16 ''history'', q_characterLevel = 1,
       q_understanding = zeroUnderstanding, q_conversationHistory = []\<rparr> 0 0
     = Inr fallbackQuestion
   \<and> fallbackQuestion \<noteq> []
   \<and> hasTopicKeywords (utf16 ''abc'') (utf16 ''history'') = Inr False"
  by (simp add: generateQuestion_def tryGenerateQuestion_def getProperty_def Let_def
      questionTemplates_unknown keywordTable_unknown hasTopicKeywords_def
      history_not_topic history_not_inherited fallbackQuestion_nonempty)

text \<open>
  C8, as amended. On the rule-based path, which \<open>evaluateAnswer\<close> takes when no AI
  client is configured or its call fails, the new mood is the table excellent/excited,
  good/happy, average/curious, poor/confused of the quality the answer is given, and the
  prior mood (indeed the whole character state of the request) has no influence on the
  result.
\<close>

theorem C8_rule_based_mood:
  "determineNewMood q m = spec_mood q
   \<and> determineNewMood q m = determineNewMood q m'
   \<and> evaluateWithFallback (params\<lparr>e_characterState := cs'\<rparr>) r1 r2
       = evaluateWithFallback params r1 r2
   \<and> (evaluateWithFallback params r1 r2 = Inr res \<longrightarrow>
        (\<exists>q'. assessAnswerQuality (e_userAnswer params) (e_topic params) = Inr q'
           \<and> newMood res = spec_mood q'))
   \<and> (geminiService = None
        \<or> (\<exists>gemini e. geminiService = Some gemini \<and> gemini params = Inl e)
       \<longrightarrow> evaluateAnswer geminiService params r1 r2 = evaluateWithFallback params r1 r2)"
proof (intro conjI impI)
  show "determineNewMood q m = spec_mood q"
    by (cases q) (simp_all add: determineNewMood_def)
  show "determineNewMood q m = determineNewMood q m'"
    by (simp add: determineNewMood_def)
  show "evaluateWithFallback (params\<lparr>e_characterState := cs'\<rparr>) r1 r2
       = evaluateWithFallback params r1 r2"
    by (rule evaluateWithFallback_state)
next
  assume "evaluateWithFallback params r1 r2 = Inr res"
  then show "\<exists>q'. assessAnswerQuality (e_userAnswer params) (e_topic params) = Inr q'
           \<and> newMood res = spec_mood q'"
    by (cases "assessAnswerQuality (e_userAnswer params) (e_topic params)")
       (auto simp: evaluateWithFallback_def determineNewMood_def split: quality.splits)
next
  assume "geminiService = None
        \<or> (\<exists>gemini e. geminiService = Some gemini \<and> gemini params = Inl e)"
  then show "evaluateAnswer geminiService params r1 r2 = evaluateWithFallback params r1 r2"
    by (rule evaluateAnswer_falls_back)
qed

theorem C8_rule_based_mood_witness:
  "(\<exists>res. evaluateWithFallback algebraRequest 7 1 = Inr res
        \<and> (\<exists>q'. assessAnswerQuality (e_userAnswer algebraRequest) (e_topic algebraRequest)
                  = Inr q'
               \<and> newMood res = spec_mood q')
        \<and> newMood res = Curious)
   \<and> (\<exists>gemini e. Some (evaluateAnswerGemini (\<lambda>p. Inl callTimeout)) = Some gemini
          \<and> gemini algebraRequest = Inl e)
   \<and> evaluateAnswer (Some (evaluateAnswerGemini (\<lambda>p. Inl callTimeout))) algebraRequest 7 1
       = evaluateWithFallback algebraRequest 7 1"
proof -
  let ?res = "\<lparr>response = generateResponse Average (e_topic algebraRequest)
                            (e_userAnswer algebraRequest) 7 1,
               experienceGain = calculateExperienceGain Average
                                  (length (e_userAnswer algebraRequest)),
               newMood = determineNewMood Average (cs_mood (e_characterState algebraRequest)),
               understandingImprovement = calculateUnderstandingImprovement Average\<rparr>"
  let ?service = "Some (evaluateAnswerGemini (\<lambda>p. Inl callTimeout))"
  have run: "evaluateWithFallback algebraRequest 7 1 = Inr ?res"
    by (simp add: evaluateWithFallback_def algebraRequest_quality)
  have mood: "newMood ?res = Curious"
    by (simp add: determineNewMood_def)
  have failing: "\<exists>gemini e. ?service = Some gemini \<and> gemini algebraRequest = Inl e"
    by (simp add: evaluateAnswerGemini_def)
  from run mood failing show ?thesis
    using C8_rule_based_mood [where q = Average and m = Excited and m' = Curious
        and params = algebraRequest and cs' = initialLocalState and ?r1.0 = 7 and ?r2.0 = 1
        and res = ?res and geminiService = ?service]
    by blast
qed

text \<open>
  The claim as stated fails when the AI call succeeds: \<open>evaluateAnswer\<close> then returns
  the mood that \<open>determineMoodFromResponse\<close> reads off the reply text. A reply of one
  word of praise is graded good (gain 15, improvement 5), for which the table gives
  happy, and the mood returned is excited.
\<close>

theorem C8_counterexample:
  "evaluateAnswer (Some (evaluateAnswerGemini (\<lambda>p. Inr praiseReply))) algebraRequest 7 1
     = Inr \<lparr>response = praiseReply, experienceGain = 15, newMood = Excited,
            understandingImprovement = 5\<rparr>
   \<and> analyzeResponseQuality praiseReply (e_userAnswer algebraRequest) = Good
   \<and> determineMoodFromResponse praiseReply = Excited
   \<and> spec_mood Good = Happy"
proof -
  have q: "analyzeResponseQuality praiseReply (e_userAnswer algebraRequest) = Good"
    by (simp add: analyzeResponseQuality_def countIncluded_def praiseReply_def
        positiveKeywords_def encouragingKeywords_def confusedKeywords_def
        algebraRequest_def Let_def)
  have m: "determineMoodFromResponse praiseReply = Excited"
    by (simp add: determineMoodFromResponse_def praiseReply_def excitedMoodKeywords_def)
  have tr: "trim praiseReply = praiseReply"
    by (simp add: trim_def praiseReply_def isWhiteSpace_def)
  have len: "length (e_userAnswer algebraRequest) = 3"
    by (simp add: algebraRequest_def)
  show ?thesis
    by (simp add: evaluateAnswer_def evaluateAnswerGemini_def tr q m len Let_def
        calculateExperienceGain_def baseExp_def calculateUnderstandingImprovement_def)
qed

text \<open>
  C9. For each of the four topics, the rule-based evaluation of the empty answer has
  score 0 and quality poor, and returns experience gain 3, understanding improvement 1
  and the mood confused, for every character state, history and random draw.
\<close>

theorem C9_empty_answer:
  assumes "t \<in> set topics"
  shows "answerScore [] t = Inr 0 \<and> assessAnswerQuality [] t = Inr Poor
    \<and> (\<exists>reply. evaluateWithFallback
          \<lparr>e_userAnswer = [], e_topic = t, e_characterState = cs,
           e_conversationHistory = h\<rparr> r1 r2
        = Inr \<lparr>response = reply, experienceGain = 3, newMood = Confused,
               understandingImprovement = 1\<rparr>)"
  using assms
  by (simp add: answerScore_Nil assessAnswerQuality_def evaluateWithFallback_def
      calculateExperienceGain_def baseExp_def calculateUnderstandingImprovement_def
      determineNewMood_def Let_def)

theorem C9_empty_answer_witness:
  "utf16 ''geometry'' \<in> set topics
   \<and> answerScore [] (utf16 ''geometry'') = Inr 0
   \<and> assessAnswerQuality [] (utf16 ''geometry'') = Inr Poor
   \<and> (\<exists>reply. evaluateWithFallback
          \<lparr>e_userAnswer = [], e_topic = utf16 ''geometry'',
           e_characterState = initialLocalState, e_conversationHistory = []\<rparr> 0 0
        = Inr \<lparr>response = reply, experienceGain = 3, newMood = Confused,
               understandingImprovement = 1\<rparr>)"
proof -
  have t: "utf16 ''geometry'' \<in> set topics" by (simp add: topics_def)
  show ?thesis
    using t C9_empty_answer [of "utf16 ''geometry''" initialLocalState "[]" 0 0] by simp
qed

text \<open>
  C10. For every stored row, non-negative gain and topic of the fixed set, one
  \<open>addExperience\<close> call stores a row in which that topic's understanding is the old value
  plus \<open>min 5 gain\<close>, capped at 100 (so it grows by at most 5), the other three topics'
  understanding and the mood are unchanged, the experience has grown by the gain, the
  level is the recomputed level capped at the old level plus one, and the problem count
  has grown by one. No other user's row changes.
\<close>

theorem C10_frame:
  assumes "db userId = Some s" and "t \<in> set topics" and "0 \<le> expGain"
  shows "\<exists>s'. addExperience db userId expGain (Some t) = Inr (db(userId \<mapsto> s'), s')
     \<and> (\<forall>t' \<in> set topics. understandingOf s' t' =
           (if t' = t then min 100 (understandingOf s t + min 5 expGain)
            else understandingOf s t'))
     \<and> understandingOf s' t \<le> understandingOf s t + 5
     \<and> mood s' = mood s
     \<and> experience s' = experience s + expGain
     \<and> level s' = min ((experience s + expGain) div 100 + 1) (level s + 1)
     \<and> totalProblems s' = totalProblems s + 1"
proof -
  let ?s' = "mergeUpdate s (experienceUpdate s expGain (Some t))"
  have run: "addExperience db userId expGain (Some t) = Inr (db(userId \<mapsto> ?s'), ?s')"
    using assms(1) by (rule addExperience_stored)
  have und: "\<forall>t' \<in> set topics. understandingOf ?s' t' =
           (if t' = t then min 100 (understandingOf s t + min 5 expGain)
            else understandingOf s t')"
    using assms(2) by (simp add: merged_understandingOf)
  have le5: "understandingOf ?s' t \<le> understandingOf s t + 5"
    using assms(2) by (simp add: merged_understandingOf)
  have rest: "mood ?s' = mood s" "experience ?s' = experience s + expGain"
    "level ?s' = min ((experience s + expGain) div 100 + 1) (level s + 1)"
    "totalProblems ?s' = totalProblems s + 1"
    by (simp_all add: merged_fields)
  from run und le5 rest show ?thesis by blast
qed

theorem C10_frame_witness:
  "[user1 \<mapsto> mixedRow] user1 = Some mixedRow \<and> utf16 ''functions'' \<in> set topics
   \<and> (0::int) \<le> 25
   \<and> (\<exists>s'. addExperience [user1 \<mapsto> mixedRow] user1 25 (Some (utf16 ''functions''))
          = Inr ([user1 \<mapsto> mixedRow](user1 \<mapsto> s'), s')
        \<and> understandingOf s' (utf16 ''functions'') = 55
        \<and> understandingOf s' (utf16 ''algebra'') = 20
        \<and> understandingOf s' (utf16 ''geometry'') = 85
        \<and> understandingOf s' (utf16 ''probability'') = 50
        \<and> mood s' = utf16 ''curious'' \<and> experience s' = 25 \<and> level s' = 1
        \<and> totalProblems s' = 1)"
proof -
  have t: "utf16 ''functions'' \<in> set topics" by (simp add: topics_def)
  have vals: "understandingOf mixedRow (utf16 ''functions'') = 50"
    "understandingOf mixedRow (utf16 ''algebra'') = 20"
    "understandingOf mixedRow (utf16 ''geometry'') = 85"
    "understandingOf mixedRow (utf16 ''probability'') = 50"
    "mood mixedRow = utf16 ''curious''" "experience mixedRow = 0" "level mixedRow = 1"
    "totalProblems mixedRow = 0"
    by (simp_all add: understandingOf_def mixedRow_def newRow_def)
  obtain s' where s': "addExperience [user1 \<mapsto> mixedRow] user1 25 (Some (utf16 ''functions''))
          = Inr ([user1 \<mapsto> mixedRow](user1 \<mapsto> s'), s')"
    and und: "\<forall>t' \<in> set topics. understandingOf s' t' =
           (if t' = utf16 ''functions''
            then min 100 (understandingOf mixedRow (utf16 ''functions'') + min 5 25)
            else understandingOf mixedRow t')"
    and rest: "mood s' = mood mixedRow" "experience s' = experience mixedRow + 25"
      "level s' = min ((experience mixedRow + 25) div 100 + 1) (level mixedRow + 1)"
      "totalProblems s' = totalProblems mixedRow + 1"
    using C10_frame [of "[user1 \<mapsto> mixedRow]" user1 mixedRow "utf16 ''functions''" 25] t
    by auto
  have "understandingOf s' (utf16 ''functions'') = 55"
    "understandingOf s' (utf16 ''algebra'') = 20"
    "understandingOf s' (utf16 ''geometry'') = 85"
    "understandingOf s' (utf16 ''probability'') = 50"
    using und vals by (simp_all add: topics_def)
  with s' rest vals t show ?thesis by auto
qed

end
